theory Spec2Isabelle
  imports Main "HOL-Library.Word"
begin

section \<open>Cell-broadcast channel configurator (GonkCellBroadcastConfigService)\<close>

text \<open>
  The script part of \<^verbatim>\<open>src/dom/wifi/nsWifiEvent.cpp\<close>: the per-slot handler that
  derives the GSM message-id ranges and the CDMA service-category ranges from carrier
  customisation flags, and pushes them to the broadcast service when they change.
\<close>

subsection \<open>Constants and customisation values\<close>

text \<open>
  The identifiers read through \<^verbatim>\<open>Ci.nsIGonkCellBroadcastConfigService\<close>. Their
  numeric values live in an interface file that is not part of the sources at hand, so
  the functions below take the valuation \<open>K\<close> of these names as a parameter.
\<close>

datatype cb_const =
    SERVICE_CATEGORY_CMAS_PRESIDENTIAL_LEVEL_ALERT
  | SERVICE_CATEGORY_CMAS_EXTREME_THREAT
  | SERVICE_CATEGORY_CMAS_SEVERE_THREAT
  | SERVICE_CATEGORY_CMAS_CHILD_ABDUCTION_EMERGENCY
  | SERVICE_CATEGORY_CMAS_TEST_MESSAGE
  | MESSAGE_ID_ETWS_EARTHQUAKE_WARNING
  | MESSAGE_ID_ETWS_EARTHQUAKE_AND_TSUNAMI_WARNING
  | MESSAGE_ID_ETWS_OTHER_EMERGENCY_TYPE
  | MESSAGE_ID_ETWS_TEST_MESSAGE
  | MESSAGE_ID_CMAS_ALERT_PRESIDENTIAL_LEVEL
  | MESSAGE_ID_CMAS_ALERT_EXTREME_EXPECTED_OBSERVED
  | MESSAGE_ID_CMAS_ALERT_SEVERE_EXPECTED_LIKELY
  | MESSAGE_ID_CMAS_ALERT_CHILD_ABDUCTION_EMERGENCY
  | MESSAGE_ID_CMAS_ALERT_REQUIRED_MONTHLY_TEST
  | MESSAGE_ID_CMAS_ALERT_OPERATOR_DEFINED_USE
  | MESSAGE_ID_CMAS_ALERT_PRESIDENTIAL_LEVEL_LANGUAGE
  | MESSAGE_ID_CMAS_ALERT_EXTREME_IMMEDIATE_OBSERVED_LANGUAGE
  | MESSAGE_ID_CMAS_ALERT_EXTREME_IMMEDIATE_LIKELY_LANGUAGE
  | MESSAGE_ID_CMAS_ALERT_EXTREME_EXPECTED_OBSERVED_LANGUAGE
  | MESSAGE_ID_CMAS_ALERT_SEVERE_EXPECTED_LIKELY_LANGUAGE
  | MESSAGE_ID_CMAS_ALERT_CHILD_ABDUCTION_EMERGENCY_LANGUAGE
  | MESSAGE_ID_CMAS_ALERT_REQUIRED_MONTHLY_TEST_LANGUAGE
  | MESSAGE_ID_CMAS_ALERT_OPERATOR_DEFINED_USE_LANGUAGE

text \<open>
  Modelled from the spec: the values of the interface constants, which no file under
  \<^verbatim>\<open>src/\<close> declares. The GSM identifiers are the numbers that the comments of
  \<^verbatim>\<open>_getCellBroadcastConfig\<close> give for each range (4352 to 4395, the
  identifiers of 3GPP TS 23.041), the CDMA categories are the CMAS service categories
  of 3GPP2 (4096 to 4100). It is used only to evaluate the functions at concrete inputs.
\<close>

fun cb_value :: "cb_const \<Rightarrow> int" where
  "cb_value SERVICE_CATEGORY_CMAS_PRESIDENTIAL_LEVEL_ALERT = 4096"
| "cb_value SERVICE_CATEGORY_CMAS_EXTREME_THREAT = 4097"
| "cb_value SERVICE_CATEGORY_CMAS_SEVERE_THREAT = 4098"
| "cb_value SERVICE_CATEGORY_CMAS_CHILD_ABDUCTION_EMERGENCY = 4099"
| "cb_value SERVICE_CATEGORY_CMAS_TEST_MESSAGE = 4100"
| "cb_value MESSAGE_ID_ETWS_EARTHQUAKE_WARNING = 4352"
| "cb_value MESSAGE_ID_ETWS_EARTHQUAKE_AND_TSUNAMI_WARNING = 4354"
| "cb_value MESSAGE_ID_ETWS_OTHER_EMERGENCY_TYPE = 4356"
| "cb_value MESSAGE_ID_ETWS_TEST_MESSAGE = 4355"
| "cb_value MESSAGE_ID_CMAS_ALERT_PRESIDENTIAL_LEVEL = 4370"
| "cb_value MESSAGE_ID_CMAS_ALERT_EXTREME_EXPECTED_OBSERVED = 4373"
| "cb_value MESSAGE_ID_CMAS_ALERT_SEVERE_EXPECTED_LIKELY = 4378"
| "cb_value MESSAGE_ID_CMAS_ALERT_CHILD_ABDUCTION_EMERGENCY = 4379"
| "cb_value MESSAGE_ID_CMAS_ALERT_REQUIRED_MONTHLY_TEST = 4380"
| "cb_value MESSAGE_ID_CMAS_ALERT_OPERATOR_DEFINED_USE = 4382"
| "cb_value MESSAGE_ID_CMAS_ALERT_PRESIDENTIAL_LEVEL_LANGUAGE = 4383"
| "cb_value MESSAGE_ID_CMAS_ALERT_EXTREME_IMMEDIATE_OBSERVED_LANGUAGE = 4384"
| "cb_value MESSAGE_ID_CMAS_ALERT_EXTREME_IMMEDIATE_LIKELY_LANGUAGE = 4385"
| "cb_value MESSAGE_ID_CMAS_ALERT_EXTREME_EXPECTED_OBSERVED_LANGUAGE = 4386"
| "cb_value MESSAGE_ID_CMAS_ALERT_SEVERE_EXPECTED_LIKELY_LANGUAGE = 4391"
| "cb_value MESSAGE_ID_CMAS_ALERT_CHILD_ABDUCTION_EMERGENCY_LANGUAGE = 4392"
| "cb_value MESSAGE_ID_CMAS_ALERT_REQUIRED_MONTHLY_TEST_LANGUAGE = 4393"
| "cb_value MESSAGE_ID_CMAS_ALERT_OPERATOR_DEFINED_USE_LANGUAGE = 4395"

text \<open>
  The customisation keys of \<^verbatim>\<open>SMSCB\<close> that the handler reads. The customisation
  service is a parameter \<open>G\<close>: \<open>G clientId key dflt\<close> is what
  \<^verbatim>\<open>gCustomizationInfo.getCustomizedValue(clientId, key, dflt)\<close> returns.
\<close>

datatype smscb_key =
    KEY_ENABLE_EMERGENCY_ALERTS
  | KEY_ENABLE_CMAS_EXTREME_THREAT_ALERTS
  | KEY_ENABLE_CMAS_SEVERE_THREAT_ALERTS
  | KEY_ENABLE_CMAS_AMBER_ALERTS
  | KEY_CARRIER_FORCE_DISABLE_ETWS_CMAS_TEST_BOOL
  | KEY_ENABLE_ETWS_TEST_ALERTS
  | KEY_ENABLE_CMAS_TEST_ALERTS

type_synonym customization = "nat \<Rightarrow> smscb_key \<Rightarrow> bool \<Rightarrow> bool"

record cb_config =
  cdma :: "int list"
  gsm :: "int list"

subsection \<open>\<^verbatim>\<open>_getCellBroadcastConfig\<close>\<close>

text \<open>
  Each \<^verbatim>\<open>push\<close> appends one number; every range is pushed as its start followed by
  its end plus one (the half-open format of the worker). The order of the bindings is
  the order of the statements of the source.
\<close>

definition getCellBroadcastConfig :: "(cb_const \<Rightarrow> int) \<Rightarrow> customization \<Rightarrow> nat \<Rightarrow> cb_config" where
  "getCellBroadcastConfig K G clientId =
    (let enableEmergencyAlerts = G clientId KEY_ENABLE_EMERGENCY_ALERTS True;
         enableEtwsAlerts = enableEmergencyAlerts;
         enableCmasExtremeAlerts = (enableEmergencyAlerts \<and>
            G clientId KEY_ENABLE_CMAS_EXTREME_THREAT_ALERTS True);
         enableCmasSevereAlerts = (enableEmergencyAlerts \<and>
            G clientId KEY_ENABLE_CMAS_SEVERE_THREAT_ALERTS True);
         enableCmasAmberAlerts = (enableEmergencyAlerts \<and>
            G clientId KEY_ENABLE_CMAS_AMBER_ALERTS True);
         forceDisableEtwsCmasTest =
            G clientId KEY_CARRIER_FORCE_DISABLE_ETWS_CMAS_TEST_BOOL False;
         enableEtwsTestAlerts = (\<not> forceDisableEtwsCmasTest \<and> enableEmergencyAlerts \<and>
            G clientId KEY_ENABLE_ETWS_TEST_ALERTS False);
         enableCmasTestAlerts = (\<not> forceDisableEtwsCmasTest \<and> enableEmergencyAlerts \<and>
            G clientId KEY_ENABLE_CMAS_TEST_ALERTS False);
         c = [];
         c = c @ [K SERVICE_CATEGORY_CMAS_PRESIDENTIAL_LEVEL_ALERT,
                  K SERVICE_CATEGORY_CMAS_PRESIDENTIAL_LEVEL_ALERT + 1];
         c = (if enableCmasExtremeAlerts
              then c @ [K SERVICE_CATEGORY_CMAS_EXTREME_THREAT,
                        K SERVICE_CATEGORY_CMAS_EXTREME_THREAT + 1] else c);
         c = (if enableCmasSevereAlerts
              then c @ [K SERVICE_CATEGORY_CMAS_SEVERE_THREAT,
                        K SERVICE_CATEGORY_CMAS_SEVERE_THREAT + 1] else c);
         c = (if enableCmasAmberAlerts
              then c @ [K SERVICE_CATEGORY_CMAS_CHILD_ABDUCTION_EMERGENCY,
                        K SERVICE_CATEGORY_CMAS_CHILD_ABDUCTION_EMERGENCY + 1] else c);
         c = (if enableCmasTestAlerts
              then c @ [K SERVICE_CATEGORY_CMAS_TEST_MESSAGE,
                        K SERVICE_CATEGORY_CMAS_TEST_MESSAGE + 1] else c);
         g = [];
         g = (if enableEtwsAlerts
              then g @ [K MESSAGE_ID_ETWS_EARTHQUAKE_WARNING,
                        K MESSAGE_ID_ETWS_EARTHQUAKE_AND_TSUNAMI_WARNING + 1] else g);
         g = (if enableEtwsAlerts
              then g @ [K MESSAGE_ID_ETWS_OTHER_EMERGENCY_TYPE,
                        K MESSAGE_ID_ETWS_OTHER_EMERGENCY_TYPE + 1] else g);
         g = (if enableEtwsTestAlerts
              then g @ [K MESSAGE_ID_ETWS_TEST_MESSAGE,
                        K MESSAGE_ID_ETWS_TEST_MESSAGE + 1] else g);
         g = g @ [K MESSAGE_ID_CMAS_ALERT_PRESIDENTIAL_LEVEL,
                  K MESSAGE_ID_CMAS_ALERT_PRESIDENTIAL_LEVEL + 1];
         g = (if enableCmasExtremeAlerts
              then g @ [K MESSAGE_ID_CMAS_ALERT_EXTREME_EXPECTED_OBSERVED,
                        K MESSAGE_ID_CMAS_ALERT_SEVERE_EXPECTED_LIKELY + 1] else g);
         g = (if enableCmasAmberAlerts
              then g @ [K MESSAGE_ID_CMAS_ALERT_CHILD_ABDUCTION_EMERGENCY,
                        K MESSAGE_ID_CMAS_ALERT_CHILD_ABDUCTION_EMERGENCY + 1] else g);
         g = (if enableCmasTestAlerts
              then g @ [K MESSAGE_ID_CMAS_ALERT_REQUIRED_MONTHLY_TEST,
                        K MESSAGE_ID_CMAS_ALERT_OPERATOR_DEFINED_USE + 1] else g);
         g = g @ [K MESSAGE_ID_CMAS_ALERT_PRESIDENTIAL_LEVEL_LANGUAGE,
                  K MESSAGE_ID_CMAS_ALERT_PRESIDENTIAL_LEVEL_LANGUAGE + 1];
         g = (if enableCmasExtremeAlerts
              then g @ [K MESSAGE_ID_CMAS_ALERT_EXTREME_IMMEDIATE_OBSERVED_LANGUAGE,
                        K MESSAGE_ID_CMAS_ALERT_EXTREME_IMMEDIATE_LIKELY_LANGUAGE + 1] else g);
         g = (if enableCmasSevereAlerts
              then g @ [K MESSAGE_ID_CMAS_ALERT_EXTREME_EXPECTED_OBSERVED_LANGUAGE,
                        K MESSAGE_ID_CMAS_ALERT_SEVERE_EXPECTED_LIKELY_LANGUAGE + 1] else g);
         g = (if enableCmasAmberAlerts
              then g @ [K MESSAGE_ID_CMAS_ALERT_CHILD_ABDUCTION_EMERGENCY_LANGUAGE,
                        K MESSAGE_ID_CMAS_ALERT_CHILD_ABDUCTION_EMERGENCY_LANGUAGE + 1] else g);
         g = (if enableCmasTestAlerts
              then g @ [K MESSAGE_ID_CMAS_ALERT_REQUIRED_MONTHLY_TEST_LANGUAGE,
                        K MESSAGE_ID_CMAS_ALERT_OPERATOR_DEFINED_USE_LANGUAGE + 1] else g)
     in \<lparr>cdma = c, gsm = g\<rparr>)"

subsection \<open>\<^verbatim>\<open>_isDifferentConfig\<close> and \<^verbatim>\<open>_updateCellBroadcastConfig\<close>\<close>

text \<open>
  \<^verbatim>\<open>Array.prototype.toString\<close> on an array of integers: the decimal numerals of the
  elements, joined by commas.
\<close>

definition digit_char :: "nat \<Rightarrow> char" where
  "digit_char d = char_of (48 + d)"

fun string_of_nat :: "nat \<Rightarrow> string" where
  "string_of_nat n =
     (if n < 10 then [digit_char n]
      else string_of_nat (n div 10) @ [digit_char (n mod 10)])"

declare string_of_nat.simps [simp del]

definition string_of_int :: "int \<Rightarrow> string" where
  "string_of_int i =
     (if i < 0 then CHR ''-'' # string_of_nat (nat (- i)) else string_of_nat (nat i))"

fun join_comma :: "string list \<Rightarrow> string" where
  "join_comma [] = []"
| "join_comma [s] = s"
| "join_comma (s # t # ss) = s @ CHR '','' # join_comma (t # ss)"

definition toString :: "int list \<Rightarrow> string" where
  "toString xs = join_comma (map string_of_int xs)"

text \<open>
  \<^verbatim>\<open>_isDifferentConfig\<close> returns \<^verbatim>\<open>true\<close> from one of four tests and otherwise
  falls off its end, which yields \<^verbatim>\<open>undefined\<close>: the result is \<open>Some True\<close> or
  \<open>None\<close>, and the caller's \<^verbatim>\<open>if\<close> takes \<open>None\<close> as false.
\<close>

definition isDifferentConfig :: "cb_config \<Rightarrow> cb_config \<Rightarrow> bool option" where
  "isDifferentConfig aOld aNew =
     (if length (gsm aOld) \<noteq> length (gsm aNew) then Some True
      else if length (cdma aOld) \<noteq> length (cdma aNew) then Some True
      else if toString (gsm aOld) \<noteq> toString (gsm aNew) then Some True
      else if toString (cdma aOld) \<noteq> toString (cdma aNew) then Some True
      else None)"

definition truthy :: "bool option \<Rightarrow> bool" where
  "truthy v = (case v of None \<Rightarrow> False | Some b \<Rightarrow> b)"

text \<open>
  The handler of one SIM slot. \<^verbatim>\<open>_mccmnc\<close> is \<^verbatim>\<open>null\<close> (\<open>None\<close>) until the
  first card information arrives. \<open>setCBSearchList\<close> records one call of
  \<^verbatim>\<open>gCellBroadcastService.setCBSearchList\<close> with its five arguments.
\<close>

record handler =
  clientId :: nat
  mccmnc :: "string option"
  config :: cb_config

datatype cb_call = setCBSearchList nat nat "int list" nat "int list"

text \<open>
  \<open>R clientId\<close> tells whether \<^verbatim>\<open>gRadioInterfaceLayer.getRadioInterface(clientId)\<close>
  returns an object. The result is the handler after the call and the calls made to the
  broadcast service.
\<close>

definition updateCellBroadcastConfig ::
  "(cb_const \<Rightarrow> int) \<Rightarrow> customization \<Rightarrow> (nat \<Rightarrow> bool) \<Rightarrow> handler \<Rightarrow> handler \<times> cb_call list" where
  "updateCellBroadcastConfig K G R h =
     (if mccmnc h = None then (h, [])
      else if \<not> R (clientId h) then (h, [])
      else
        let cfg = getCellBroadcastConfig K G (clientId h) in
        if truthy (isDifferentConfig (config h) cfg)
        then (h\<lparr>config := cfg\<rparr>,
              [setCBSearchList (clientId h) (length (gsm cfg)) (gsm cfg)
                 (length (cdma cfg)) (cdma cfg)])
        else (h, []))"

text \<open>
  \<^verbatim>\<open>notifyIccInfoChanged\<close>: the only caller. \<open>info\<close> is the card's
  \<^verbatim>\<open>iccInfo\<close> with its \<^verbatim>\<open>mcc\<close> and \<^verbatim>\<open>mnc\<close> strings; an empty string is
  falsy.
\<close>

definition notifyIccInfoChanged ::
  "(cb_const \<Rightarrow> int) \<Rightarrow> customization \<Rightarrow> (nat \<Rightarrow> bool) \<Rightarrow> (string \<times> string) option
     \<Rightarrow> handler \<Rightarrow> handler \<times> cb_call list" where
  "notifyIccInfoChanged K G R info h =
     (case info of
        None \<Rightarrow> (h, [])
      | Some (mcc, mnc) \<Rightarrow>
          if mcc \<noteq> [] \<and> mnc \<noteq> [] then
            (let m = mcc @ mnc in
             if mccmnc h \<noteq> Some m
             then updateCellBroadcastConfig K G R (h\<lparr>mccmnc := Some m\<rparr>)
             else (h, []))
          else (h, []))"

subsection \<open>\<^verbatim>\<open>getCBSearchList\<close>\<close>

text \<open>
  The service method resolves identifiers in the scope of its body: its five parameters
  and the bindings of the module. A read of an identifier that no scope binds throws a
  \<^verbatim>\<open>ReferenceError\<close>. The first statement indexes \<^verbatim>\<open>this._handlers\<close> with the
  identifier \<^verbatim>\<open>aCLientId\<close>.
\<close>

datatype js_value = Num nat | Obj

datatype js_error = ReferenceError string | NS_ERROR_NOT_AVAILABLE

definition module_scope :: "(string \<times> js_value) list" where
  "module_scope = map (\<lambda>n. (n, Obj))
     [''Components'', ''dump'', ''Cc'', ''Ci'', ''Cu'', ''Cr'', ''XPCOMUtils'', ''Services'',
      ''RIL'', ''SMSCB'', ''GONK_CELLBROADCASTCONFIGSERVICE_CONTRACTID'',
      ''GONK_CELLBROADCASTCONFIGSERVICE_CID'', ''GONK_CELLBROADCASTCONFIGHANDLER_CID'',
      ''NS_XPCOM_SHUTDOWN_OBSERVER_ID'', ''NS_PREFBRANCH_PREFCHANGE_TOPIC_ID'',
      ''gRadioInterfaceLayer'', ''gCellBroadcastService'', ''gCustomizationInfo'',
      ''gIccService'', ''gSettingsService'', ''DEBUG'', ''debug'',
      ''GonkCellBroadcastConfigService'', ''GonkCellBroadcastConfigHandler'',
      ''NSGetFactory'']"

definition getCBSearchList_scope :: "nat \<Rightarrow> (string \<times> js_value) list" where
  "getCBSearchList_scope aClientId =
     [(''aClientId'', Num aClientId), (''aGsmCount'', Obj), (''aGsms'', Obj),
      (''aCdmaCount'', Obj), (''aCdmas'', Obj)] @ module_scope"

definition resolve :: "(string \<times> js_value) list \<Rightarrow> string \<Rightarrow> js_error + js_value" where
  "resolve scope name =
     (case map_of scope name of
        None \<Rightarrow> Inl (ReferenceError name)
      | Some v \<Rightarrow> Inr v)"

text \<open>Indexing the array of handlers: any index outside it gives \<^verbatim>\<open>undefined\<close>.\<close>

definition handler_at :: "handler list \<Rightarrow> js_value \<Rightarrow> handler option" where
  "handler_at hs v =
     (case v of
        Num i \<Rightarrow> if i < length hs then Some (hs ! i) else None
      | Obj \<Rightarrow> None)"

text \<open>
  On success the four out-parameters receive the lengths and the lists of the stored
  configuration.
\<close>

definition getCBSearchList ::
  "handler list \<Rightarrow> nat \<Rightarrow> js_error + (nat \<times> int list \<times> nat \<times> int list)" where
  "getCBSearchList handlers aClientId =
     (case resolve (getCBSearchList_scope aClientId) ''aCLientId'' of
        Inl e \<Rightarrow> Inl e
      | Inr idx \<Rightarrow>
          (case handler_at handlers idx of
             None \<Rightarrow> Inl NS_ERROR_NOT_AVAILABLE
           | Some h \<Rightarrow>
               Inr (length (gsm (config h)), gsm (config h),
                    length (cdma (config h)), cdma (config h))))"


section \<open>Radio request forwarder (nsRilWorker)\<close>

text \<open>
  The first part of \<^verbatim>\<open>src/dom/system/gonk/radio/nsRilWorker.cpp\<close>. A worker holds a
  handle to the Radio HAL service of its SIM slot and forwards each request to it.
  Informational logging (\<^verbatim>\<open>INFO\<close>) changes nothing and is left out; error logging,
  the calls made on the HAL handle and the registration calls are events of the worker.
\<close>

text \<open>\<^verbatim>\<open>int32_t\<close>: 32 bits, read in two's complement by \<open>sint\<close>.\<close>

type_synonym int32 = "32 word"

definition INT32_MAX :: int32 where
  "INT32_MAX = 0x7FFFFFFF"

datatype nsresult = NS_OK | NS_ERROR_FAILURE

text \<open>
  What a method does: it returns a value, or it reads through a null handle, or it
  indexes past the end of the table of service names. The last two are undefined
  behaviour in C++; the model stops there.
\<close>

datatype 'a outcome = Returned 'a | NullDeref | OutOfBounds

text \<open>
  A call on the \<^verbatim>\<open>IRadio\<close> interface is its method name and its marshalled
  arguments: 32-bit integers, booleans, strings, structures and vectors (\<open>L\<close>), a null
  string pointer, and a structure field that the code never assigns (\<open>Uninit\<close>).
\<close>

datatype hal_arg = I int32 | B bool | S string | L "hal_arg list" | Null | Uninit

type_synonym iradio_call = "string \<times> hal_arg list"

datatype ril_event =
    ERROR string
  | Invoke "nat option" iradio_call
  | LinkToDeath nat
  | SetResponseFunctions nat

text \<open>
  The platform side: which handle \<^verbatim>\<open>IRadio::getService\<close> returns for a service
  name (\<open>None\<close> is the null handle), whether linking the death recipient succeeds, and
  whether the transport of a call on a handle succeeds (the \<^verbatim>\<open>Return<void>\<close> that
  every \<^verbatim>\<open>IRadio\<close> method gives back).
\<close>

record radio_hal =
  getService :: "string \<Rightarrow> nat option"
  linkToDeath :: "nat \<Rightarrow> bool"
  isOk :: "nat \<Rightarrow> iradio_call \<Rightarrow> bool"

record ril_worker =
  mClientId :: nat
  mRadioProxy :: "nat option"
  mDeathRecipient :: bool
  mRilCallback :: "nat option"
  events :: "ril_event list"

definition HIDL_SERVICE_NAME :: "string list" where
  "HIDL_SERVICE_NAME = [''slot1'', ''slot2'', ''slot3'']"

definition emit :: "ril_event \<Rightarrow> ril_worker \<Rightarrow> ril_worker" where
  "emit e w = w\<lparr>events := events w @ [e]\<rparr>"

definition nsRilWorker :: "nat \<Rightarrow> ril_worker" where
  "nsRilWorker aClientId =
     \<lparr>mClientId = aClientId, mRadioProxy = None, mDeathRecipient = False,
      mRilCallback = None, events = []\<rparr>"

definition GetRadioProxy :: "radio_hal \<Rightarrow> ril_worker \<Rightarrow> unit outcome \<times> ril_worker" where
  "GetRadioProxy H w =
     (if mRadioProxy w \<noteq> None then (Returned (), w)
      else if \<not> mClientId w < length HIDL_SERVICE_NAME then (OutOfBounds, w)
      else
        let w = w\<lparr>mRadioProxy := getService H (HIDL_SERVICE_NAME ! mClientId w)\<rparr> in
        (case mRadioProxy w of
           Some p \<Rightarrow>
             let w = (if \<not> mDeathRecipient w then w\<lparr>mDeathRecipient := True\<rparr> else w);
                 w = (if mDeathRecipient w
                      then (let w = emit (LinkToDeath p) w in
                            if \<not> linkToDeath H p
                            then emit (ERROR ''Failed to link to radio hal death notifications'') w
                            else w)
                      else w)
             in (Returned (), emit (SetResponseFunctions p) w)
         | None \<Rightarrow> (Returned (), emit (ERROR ''Get Radio hal failed'') w)))"

text \<open>
  The body that the 67 forwarding methods share, each with its own call: fetch the
  handle, log an error when it is null, call through the handle, return
  \<^verbatim>\<open>NS_OK\<close>. The \<^verbatim>\<open>Return<void>\<close> of the call is dropped.
\<close>

definition forward :: "radio_hal \<Rightarrow> iradio_call \<Rightarrow> ril_worker \<Rightarrow> nsresult outcome \<times> ril_worker" where
  "forward H c w =
     (case GetRadioProxy H w of
        (NullDeref, w1) \<Rightarrow> (NullDeref, w1)
      | (OutOfBounds, w1) \<Rightarrow> (OutOfBounds, w1)
      | (Returned u, w1) \<Rightarrow>
          let w2 = (if mRadioProxy w1 = None then emit (ERROR ''No Radio HAL exist'') w1 else w1);
              w3 = emit (Invoke (mRadioProxy w2) c) w2
          in (case mRadioProxy w2 of
                None \<Rightarrow> (NullDeref, w3)
              | Some p \<Rightarrow> (Returned NS_OK, w3)))"

text \<open>
  The data profile that two requests marshal into the HAL structure; its fields are
  named after the getters through which the code reads them.
\<close>

record nsIDataProfile =
  GetProfileId :: int32
  GetApn :: string
  GetProtocol :: string
  GetRoamingProtocol :: string
  GetAuthType :: int32
  GetUser :: string
  GetPassword :: string
  GetType :: int32
  GetMaxConnsTime :: int32
  GetMaxConns :: int32
  GetWaitTime :: int32
  GetEnabled :: bool
  GetSupportedApnTypesBitmap :: int32
  GetBearerBitmap :: int32
  GetMtu :: int32
  GetMvnoType :: string
  GetMvnoMatchData :: string
  GetModemCognitive :: bool

datatype MvnoType = MVNO_NONE | MVNO_IMSI | MVNO_GID | MVNO_SPN

definition convertToHalMvnoType :: "string \<Rightarrow> MvnoType" where
  "convertToHalMvnoType t =
     (if t = ''imsi'' then MVNO_IMSI
      else if t = ''gid'' then MVNO_GID
      else if t = ''spn'' then MVNO_SPN
      else MVNO_NONE)"

definition mvno_arg :: "MvnoType \<Rightarrow> hal_arg" where
  "mvno_arg m = (case m of MVNO_NONE \<Rightarrow> S ''NONE'' | MVNO_IMSI \<Rightarrow> S ''IMSI''
                  | MVNO_GID \<Rightarrow> S ''GID'' | MVNO_SPN \<Rightarrow> S ''SPN'')"

definition convertToHalDataProfile :: "nsIDataProfile \<Rightarrow> hal_arg" where
  "convertToHalDataProfile profile =
     L [I (GetProfileId profile), S (GetApn profile), S (GetProtocol profile),
        S (GetRoamingProtocol profile), I (GetAuthType profile), S (GetUser profile),
        S (GetPassword profile), I (GetType profile), I (GetMaxConnsTime profile),
        I (GetMaxConns profile), I (GetWaitTime profile), B (GetEnabled profile),
        I (GetSupportedApnTypesBitmap profile), I (GetBearerBitmap profile), I (GetMtu profile),
        mvno_arg (convertToHalMvnoType (GetMvnoType profile)), S (GetMvnoMatchData profile)]"

subsection \<open>The request methods, in the order of the file\<close>

definition SendRilRequest :: "ril_worker \<Rightarrow> nsresult outcome \<times> ril_worker" where
  "SendRilRequest w = (Returned NS_OK, w)"

definition InitRil :: "radio_hal \<Rightarrow> nat \<Rightarrow> ril_worker \<Rightarrow> nsresult outcome \<times> ril_worker" where
  "InitRil H callback w =
     (case GetRadioProxy H (w\<lparr>mRilCallback := Some callback\<rparr>) of
        (Returned u, w1) \<Rightarrow> (Returned NS_OK, w1)
      | (NullDeref, w1) \<Rightarrow> (NullDeref, w1)
      | (OutOfBounds, w1) \<Rightarrow> (OutOfBounds, w1))"

definition SetRadioPower :: "radio_hal \<Rightarrow> int32 \<Rightarrow> bool \<Rightarrow> ril_worker \<Rightarrow> nsresult outcome \<times> ril_worker" where
  "SetRadioPower H serial enabled =
     forward H (''setRadioPower'', [I serial, B enabled])"

definition GetDeviceIdentity :: "radio_hal \<Rightarrow> int32 \<Rightarrow> ril_worker \<Rightarrow> nsresult outcome \<times> ril_worker" where
  "GetDeviceIdentity H serial =
     forward H (''getDeviceIdentity'', [I serial])"

definition GetVoiceRegistrationState :: "radio_hal \<Rightarrow> int32 \<Rightarrow> ril_worker \<Rightarrow> nsresult outcome \<times> ril_worker" where
  "GetVoiceRegistrationState H serial =
     forward H (''getVoiceRegistrationState'', [I serial])"

definition GetDataRegistrationState :: "radio_hal \<Rightarrow> int32 \<Rightarrow> ril_worker \<Rightarrow> nsresult outcome \<times> ril_worker" where
  "GetDataRegistrationState H serial =
     forward H (''getDataRegistrationState'', [I serial])"

definition GetOperator :: "radio_hal \<Rightarrow> int32 \<Rightarrow> ril_worker \<Rightarrow> nsresult outcome \<times> ril_worker" where
  "GetOperator H serial =
     forward H (''getOperator'', [I serial])"

definition GetNetworkSelectionMode :: "radio_hal \<Rightarrow> int32 \<Rightarrow> ril_worker \<Rightarrow> nsresult outcome \<times> ril_worker" where
  "GetNetworkSelectionMode H serial =
     forward H (''getNetworkSelectionMode'', [I serial])"

definition GetSignalStrength :: "radio_hal \<Rightarrow> int32 \<Rightarrow> ril_worker \<Rightarrow> nsresult outcome \<times> ril_worker" where
  "GetSignalStrength H serial =
     forward H (''getSignalStrength'', [I serial])"

definition GetVoiceRadioTechnology :: "radio_hal \<Rightarrow> int32 \<Rightarrow> ril_worker \<Rightarrow> nsresult outcome \<times> ril_worker" where
  "GetVoiceRadioTechnology H serial =
     forward H (''getVoiceRadioTechnology'', [I serial])"

definition GetIccCardStatus :: "radio_hal \<Rightarrow> int32 \<Rightarrow> ril_worker \<Rightarrow> nsresult outcome \<times> ril_worker" where
  "GetIccCardStatus H serial =
     forward H (''getIccCardStatus'', [I serial])"

definition ReportSmsMemoryStatus :: "radio_hal \<Rightarrow> int32 \<Rightarrow> bool \<Rightarrow> ril_worker \<Rightarrow> nsresult outcome \<times> ril_worker" where
  "ReportSmsMemoryStatus H serial available =
     forward H (''reportSmsMemoryStatus'', [I serial, B available])"

definition SetCellInfoListRate :: "radio_hal \<Rightarrow> int32 \<Rightarrow> int32 \<Rightarrow> ril_worker \<Rightarrow> nsresult outcome \<times> ril_worker" where
  "SetCellInfoListRate H serial rateInMillis =
     forward H (''setCellInfoListRate'',
       [I serial, I (if rateInMillis = 0 then INT32_MAX else rateInMillis)])"

definition SetDataAllowed :: "radio_hal \<Rightarrow> int32 \<Rightarrow> bool \<Rightarrow> ril_worker \<Rightarrow> nsresult outcome \<times> ril_worker" where
  "SetDataAllowed H serial allowed =
     forward H (''setDataAllowed'', [I serial, B allowed])"

definition GetBasebandVersion :: "radio_hal \<Rightarrow> int32 \<Rightarrow> ril_worker \<Rightarrow> nsresult outcome \<times> ril_worker" where
  "GetBasebandVersion H serial =
     forward H (''getBasebandVersion'', [I serial])"

definition SetUiccSubscription :: "radio_hal \<Rightarrow> int32 \<Rightarrow> int32 \<Rightarrow> int32 \<Rightarrow> int32 \<Rightarrow> int32 \<Rightarrow> ril_worker \<Rightarrow> nsresult outcome \<times> ril_worker" where
  "SetUiccSubscription H serial slotId appIndex subId subStatus =
     forward H (''setUiccSubscription'',
       [I serial, L [I slotId, I appIndex, I subId, I subStatus]])"

definition SetMute :: "radio_hal \<Rightarrow> int32 \<Rightarrow> bool \<Rightarrow> ril_worker \<Rightarrow> nsresult outcome \<times> ril_worker" where
  "SetMute H serial enableMute =
     forward H (''setMute'', [I serial, B enableMute])"

definition GetMute :: "radio_hal \<Rightarrow> int32 \<Rightarrow> ril_worker \<Rightarrow> nsresult outcome \<times> ril_worker" where
  "GetMute H serial =
     forward H (''getMute'', [I serial])"

definition GetSmscAddress :: "radio_hal \<Rightarrow> int32 \<Rightarrow> ril_worker \<Rightarrow> nsresult outcome \<times> ril_worker" where
  "GetSmscAddress H serial =
     forward H (''getSmscAddress'', [I serial])"

definition RequestDial :: "radio_hal \<Rightarrow> int32 \<Rightarrow> string \<Rightarrow> int32 \<Rightarrow> int32 \<Rightarrow> int32 \<Rightarrow> string \<Rightarrow> ril_worker \<Rightarrow> nsresult outcome \<times> ril_worker" where
  "RequestDial H serial address clirMode uusType uusDcs uusData =
     forward H (''dial'',
       [I serial,
        L [S address, I clirMode,
           L [L [I uusType, I uusDcs, (if length uusData = 0 then Null else S uusData)]]]])"

definition GetCurrentCalls :: "radio_hal \<Rightarrow> int32 \<Rightarrow> ril_worker \<Rightarrow> nsresult outcome \<times> ril_worker" where
  "GetCurrentCalls H serial =
     forward H (''getCurrentCalls'', [I serial])"

definition HangupConnection :: "radio_hal \<Rightarrow> int32 \<Rightarrow> int32 \<Rightarrow> ril_worker \<Rightarrow> nsresult outcome \<times> ril_worker" where
  "HangupConnection H serial callIndex =
     forward H (''hangup'', [I serial, I callIndex])"

definition HangupWaitingOrBackground :: "radio_hal \<Rightarrow> int32 \<Rightarrow> ril_worker \<Rightarrow> nsresult outcome \<times> ril_worker" where
  "HangupWaitingOrBackground H serial =
     forward H (''hangupWaitingOrBackground'', [I serial])"

definition HangupForegroundResumeBackground :: "radio_hal \<Rightarrow> int32 \<Rightarrow> ril_worker \<Rightarrow> nsresult outcome \<times> ril_worker" where
  "HangupForegroundResumeBackground H serial =
     forward H (''hangupForegroundResumeBackground'', [I serial])"

definition SwitchWaitingOrHoldingAndActive :: "radio_hal \<Rightarrow> int32 \<Rightarrow> ril_worker \<Rightarrow> nsresult outcome \<times> ril_worker" where
  "SwitchWaitingOrHoldingAndActive H serial =
     forward H (''switchWaitingOrHoldingAndActive'', [I serial])"

definition Conference :: "radio_hal \<Rightarrow> int32 \<Rightarrow> ril_worker \<Rightarrow> nsresult outcome \<times> ril_worker" where
  "Conference H serial =
     forward H (''conference'', [I serial])"

definition GetLastCallFailCause :: "radio_hal \<Rightarrow> int32 \<Rightarrow> ril_worker \<Rightarrow> nsresult outcome \<times> ril_worker" where
  "GetLastCallFailCause H serial =
     forward H (''getLastCallFailCause'', [I serial])"

definition AcceptCall :: "radio_hal \<Rightarrow> int32 \<Rightarrow> ril_worker \<Rightarrow> nsresult outcome \<times> ril_worker" where
  "AcceptCall H serial =
     forward H (''acceptCall'', [I serial])"

definition SetPreferredNetworkType :: "radio_hal \<Rightarrow> int32 \<Rightarrow> int32 \<Rightarrow> ril_worker \<Rightarrow> nsresult outcome \<times> ril_worker" where
  "SetPreferredNetworkType H serial networkType =
     forward H (''setPreferredNetworkType'', [I serial, I networkType])"

definition GetPreferredNetworkType :: "radio_hal \<Rightarrow> int32 \<Rightarrow> ril_worker \<Rightarrow> nsresult outcome \<times> ril_worker" where
  "GetPreferredNetworkType H serial =
     forward H (''getPreferredNetworkType'', [I serial])"

definition SetNetworkSelectionModeAutomatic :: "radio_hal \<Rightarrow> int32 \<Rightarrow> ril_worker \<Rightarrow> nsresult outcome \<times> ril_worker" where
  "SetNetworkSelectionModeAutomatic H serial =
     forward H (''setNetworkSelectionModeAutomatic'', [I serial])"

definition SetNetworkSelectionModeManual :: "radio_hal \<Rightarrow> int32 \<Rightarrow> string \<Rightarrow> ril_worker \<Rightarrow> nsresult outcome \<times> ril_worker" where
  "SetNetworkSelectionModeManual H serial operatorNumeric =
     forward H (''setNetworkSelectionModeManual'', [I serial, S operatorNumeric])"

definition GetAvailableNetworks :: "radio_hal \<Rightarrow> int32 \<Rightarrow> ril_worker \<Rightarrow> nsresult outcome \<times> ril_worker" where
  "GetAvailableNetworks H serial =
     forward H (''getAvailableNetworks'', [I serial])"

definition SetInitialAttachApn :: "radio_hal \<Rightarrow> int32 \<Rightarrow> nsIDataProfile \<Rightarrow> bool \<Rightarrow> ril_worker \<Rightarrow> nsresult outcome \<times> ril_worker" where
  "SetInitialAttachApn H serial profile isRoaming =
     forward H (''setInitialAttachApn'',
       [I serial, convertToHalDataProfile profile, B (GetModemCognitive profile), B isRoaming])"

definition SetupDataCall :: "radio_hal \<Rightarrow> int32 \<Rightarrow> int32 \<Rightarrow> nsIDataProfile \<Rightarrow> bool \<Rightarrow> bool \<Rightarrow> ril_worker \<Rightarrow> nsresult outcome \<times> ril_worker" where
  "SetupDataCall H serial radioTechnology profile isRoaming allowRoaming =
     forward H (''setupDataCall'',
       [I serial, I radioTechnology, convertToHalDataProfile profile,
        B (GetModemCognitive profile), B allowRoaming, B isRoaming])"

definition DeactivateDataCall :: "radio_hal \<Rightarrow> int32 \<Rightarrow> int32 \<Rightarrow> int32 \<Rightarrow> ril_worker \<Rightarrow> nsresult outcome \<times> ril_worker" where
  "DeactivateDataCall H serial cid reason =
     forward H (''deactivateDataCall'', [I serial, I cid, B (if reason = 0 then False else True)])"

definition GetDataCallList :: "radio_hal \<Rightarrow> int32 \<Rightarrow> ril_worker \<Rightarrow> nsresult outcome \<times> ril_worker" where
  "GetDataCallList H serial =
     forward H (''getDataCallList'', [I serial])"

definition GetCellInfoList :: "radio_hal \<Rightarrow> int32 \<Rightarrow> ril_worker \<Rightarrow> nsresult outcome \<times> ril_worker" where
  "GetCellInfoList H serial =
     forward H (''getCellInfoList'', [I serial])"

definition GetIMSI :: "radio_hal \<Rightarrow> int32 \<Rightarrow> string \<Rightarrow> ril_worker \<Rightarrow> nsresult outcome \<times> ril_worker" where
  "GetIMSI H serial aid =
     forward H (''getImsiForApp'', [I serial, S aid])"

definition IccIOForApp :: "radio_hal \<Rightarrow> int32 \<Rightarrow> int32 \<Rightarrow> int32 \<Rightarrow> string \<Rightarrow> int32 \<Rightarrow> int32 \<Rightarrow> int32 \<Rightarrow> string \<Rightarrow> string \<Rightarrow> string \<Rightarrow> ril_worker \<Rightarrow> nsresult outcome \<times> ril_worker" where
  "IccIOForApp H serial command fileId path p1 p2 p3 data pin2 aid =
     forward H (''iccIOForApp'',
       [I serial, L [I command, I fileId, S path, I p1, I p2, I p3, S data, S pin2, S aid]])"

definition GetClir :: "radio_hal \<Rightarrow> int32 \<Rightarrow> ril_worker \<Rightarrow> nsresult outcome \<times> ril_worker" where
  "GetClir H serial =
     forward H (''getClir'', [I serial])"

definition SetClir :: "radio_hal \<Rightarrow> int32 \<Rightarrow> int32 \<Rightarrow> ril_worker \<Rightarrow> nsresult outcome \<times> ril_worker" where
  "SetClir H serial clirMode =
     forward H (''setClir'', [I serial, I clirMode])"

definition SendDtmf :: "radio_hal \<Rightarrow> int32 \<Rightarrow> string \<Rightarrow> ril_worker \<Rightarrow> nsresult outcome \<times> ril_worker" where
  "SendDtmf H serial dtmfChar =
     forward H (''sendDtmf'', [I serial, S dtmfChar])"

definition StartDtmf :: "radio_hal \<Rightarrow> int32 \<Rightarrow> string \<Rightarrow> ril_worker \<Rightarrow> nsresult outcome \<times> ril_worker" where
  "StartDtmf H serial dtmfChar =
     forward H (''startDtmf'', [I serial, S dtmfChar])"

definition StopDtmf :: "radio_hal \<Rightarrow> int32 \<Rightarrow> ril_worker \<Rightarrow> nsresult outcome \<times> ril_worker" where
  "StopDtmf H serial =
     forward H (''stopDtmf'', [I serial])"

definition RejectCall :: "radio_hal \<Rightarrow> int32 \<Rightarrow> ril_worker \<Rightarrow> nsresult outcome \<times> ril_worker" where
  "RejectCall H serial =
     forward H (''rejectCall'', [I serial])"

definition SendUssd :: "radio_hal \<Rightarrow> int32 \<Rightarrow> string \<Rightarrow> ril_worker \<Rightarrow> nsresult outcome \<times> ril_worker" where
  "SendUssd H serial ussd =
     forward H (''sendUssd'', [I serial, S ussd])"

definition CancelPendingUssd :: "radio_hal \<Rightarrow> int32 \<Rightarrow> ril_worker \<Rightarrow> nsresult outcome \<times> ril_worker" where
  "CancelPendingUssd H serial =
     forward H (''cancelPendingUssd'', [I serial])"

definition GetCallForwardStatus :: "radio_hal \<Rightarrow> int32 \<Rightarrow> int32 \<Rightarrow> int32 \<Rightarrow> string \<Rightarrow> int32 \<Rightarrow> ril_worker \<Rightarrow> nsresult outcome \<times> ril_worker" where
  "GetCallForwardStatus H serial cfReason serviceClass number toaNumber =
     forward H (''getCallForwardStatus'',
       [I serial, L [Uninit, I cfReason, I serviceClass, I toaNumber, S number, I 0]])"

definition SetCallForwardStatus :: "radio_hal \<Rightarrow> int32 \<Rightarrow> int32 \<Rightarrow> int32 \<Rightarrow> int32 \<Rightarrow> string \<Rightarrow> int32 \<Rightarrow> ril_worker \<Rightarrow> nsresult outcome \<times> ril_worker" where
  "SetCallForwardStatus H serial action cfReason serviceClass number toaNumber =
     forward H (''getCallForwardStatus'',
       [I serial, L [I action, I cfReason, I serviceClass, I toaNumber, S number, I 0]])"

definition GetCallWaiting :: "radio_hal \<Rightarrow> int32 \<Rightarrow> int32 \<Rightarrow> ril_worker \<Rightarrow> nsresult outcome \<times> ril_worker" where
  "GetCallWaiting H serial serviceClass =
     forward H (''getCallWaiting'', [I serial, I serviceClass])"

definition SetCallWaiting :: "radio_hal \<Rightarrow> int32 \<Rightarrow> bool \<Rightarrow> int32 \<Rightarrow> ril_worker \<Rightarrow> nsresult outcome \<times> ril_worker" where
  "SetCallWaiting H serial enable serviceClass =
     forward H (''setCallWaiting'', [I serial, B enable, I serviceClass])"

definition SetBarringPassword :: "radio_hal \<Rightarrow> int32 \<Rightarrow> string \<Rightarrow> string \<Rightarrow> string \<Rightarrow> ril_worker \<Rightarrow> nsresult outcome \<times> ril_worker" where
  "SetBarringPassword H serial facility oldPwd newPwd =
     forward H (''setBarringPassword'', [I serial, S facility, S oldPwd, S newPwd])"

definition SeparateConnection :: "radio_hal \<Rightarrow> int32 \<Rightarrow> int32 \<Rightarrow> ril_worker \<Rightarrow> nsresult outcome \<times> ril_worker" where
  "SeparateConnection H serial gsmIndex =
     forward H (''separateConnection'', [I serial, I gsmIndex])"

definition GetClip :: "radio_hal \<Rightarrow> int32 \<Rightarrow> ril_worker \<Rightarrow> nsresult outcome \<times> ril_worker" where
  "GetClip H serial =
     forward H (''getClip'', [I serial])"

definition ExplicitCallTransfer :: "radio_hal \<Rightarrow> int32 \<Rightarrow> ril_worker \<Rightarrow> nsresult outcome \<times> ril_worker" where
  "ExplicitCallTransfer H serial =
     forward H (''explicitCallTransfer'', [I serial])"

definition GetNeighboringCids :: "radio_hal \<Rightarrow> int32 \<Rightarrow> ril_worker \<Rightarrow> nsresult outcome \<times> ril_worker" where
  "GetNeighboringCids H serial =
     forward H (''getNeighboringCids'', [I serial])"

definition SetTTYMode :: "radio_hal \<Rightarrow> int32 \<Rightarrow> int32 \<Rightarrow> ril_worker \<Rightarrow> nsresult outcome \<times> ril_worker" where
  "SetTTYMode H serial ttyMode =
     forward H (''setTTYMode'', [I serial, I ttyMode])"

definition QueryTTYMode :: "radio_hal \<Rightarrow> int32 \<Rightarrow> ril_worker \<Rightarrow> nsresult outcome \<times> ril_worker" where
  "QueryTTYMode H serial =
     forward H (''getTTYMode'', [I serial])"

definition ExitEmergencyCallbackMode :: "radio_hal \<Rightarrow> int32 \<Rightarrow> ril_worker \<Rightarrow> nsresult outcome \<times> ril_worker" where
  "ExitEmergencyCallbackMode H serial =
     forward H (''exitEmergencyCallbackMode'', [I serial])"

definition SupplyIccPinForApp :: "radio_hal \<Rightarrow> int32 \<Rightarrow> string \<Rightarrow> string \<Rightarrow> ril_worker \<Rightarrow> nsresult outcome \<times> ril_worker" where
  "SupplyIccPinForApp H serial pin aid =
     forward H (''supplyIccPinForApp'', [I serial, S pin, S aid])"

definition SupplyIccPin2ForApp :: "radio_hal \<Rightarrow> int32 \<Rightarrow> string \<Rightarrow> string \<Rightarrow> ril_worker \<Rightarrow> nsresult outcome \<times> ril_worker" where
  "SupplyIccPin2ForApp H serial pin aid =
     forward H (''supplyIccPin2ForApp'', [I serial, S pin, S aid])"

definition SupplyIccPukForApp :: "radio_hal \<Rightarrow> int32 \<Rightarrow> string \<Rightarrow> string \<Rightarrow> string \<Rightarrow> ril_worker \<Rightarrow> nsresult outcome \<times> ril_worker" where
  "SupplyIccPukForApp H serial puk newPin aid =
     forward H (''supplyIccPukForApp'', [I serial, S puk, S newPin, S aid])"

definition SupplyIccPuk2ForApp :: "radio_hal \<Rightarrow> int32 \<Rightarrow> string \<Rightarrow> string \<Rightarrow> string \<Rightarrow> ril_worker \<Rightarrow> nsresult outcome \<times> ril_worker" where
  "SupplyIccPuk2ForApp H serial puk newPin aid =
     forward H (''supplyIccPuk2ForApp'', [I serial, S puk, S newPin, S aid])"

definition SetFacilityLockForApp :: "radio_hal \<Rightarrow> int32 \<Rightarrow> string \<Rightarrow> bool \<Rightarrow> string \<Rightarrow> int32 \<Rightarrow> string \<Rightarrow> ril_worker \<Rightarrow> nsresult outcome \<times> ril_worker" where
  "SetFacilityLockForApp H serial facility lockState password serviceClass aid =
     forward H (''setFacilityLockForApp'', [I serial, S facility, B lockState, S password, I serviceClass, S aid])"

definition GetFacilityLockForApp :: "radio_hal \<Rightarrow> int32 \<Rightarrow> string \<Rightarrow> string \<Rightarrow> int32 \<Rightarrow> string \<Rightarrow> ril_worker \<Rightarrow> nsresult outcome \<times> ril_worker" where
  "GetFacilityLockForApp H serial facility password serviceClass aid =
     forward H (''getFacilityLockForApp'', [I serial, S facility, S password, I serviceClass, S aid])"

definition ChangeIccPinForApp :: "radio_hal \<Rightarrow> int32 \<Rightarrow> string \<Rightarrow> string \<Rightarrow> string \<Rightarrow> ril_worker \<Rightarrow> nsresult outcome \<times> ril_worker" where
  "ChangeIccPinForApp H serial oldPin newPin aid =
     forward H (''changeIccPinForApp'', [I serial, S oldPin, S newPin, S aid])"

definition ChangeIccPin2ForApp :: "radio_hal \<Rightarrow> int32 \<Rightarrow> string \<Rightarrow> string \<Rightarrow> string \<Rightarrow> ril_worker \<Rightarrow> nsresult outcome \<times> ril_worker" where
  "ChangeIccPin2ForApp H serial oldPin newPin aid =
     forward H (''changeIccPin2ForApp'', [I serial, S oldPin, S newPin, S aid])"

definition ReportStkServiceIsRunning :: "radio_hal \<Rightarrow> int32 \<Rightarrow> ril_worker \<Rightarrow> nsresult outcome \<times> ril_worker" where
  "ReportStkServiceIsRunning H serial =
     forward H (''reportStkServiceIsRunning'', [I serial])"

definition SetGsmBroadcastActivation :: "int32 \<Rightarrow> bool \<Rightarrow> ril_worker \<Rightarrow> nsresult outcome \<times> ril_worker" where
  "SetGsmBroadcastActivation serial activate w = (Returned NS_OK, w)"

definition SetGsmBroadcastConfig :: "int32 \<Rightarrow> int32 list \<Rightarrow> ril_worker \<Rightarrow> nsresult outcome \<times> ril_worker" where
  "SetGsmBroadcastConfig serial ranges w = (Returned NS_OK, w)"

text \<open>
  \<^verbatim>\<open>sendAck\<close> is the one caller that tests the handle and calls only when it is
  not null.
\<close>

definition sendAck :: "radio_hal \<Rightarrow> ril_worker \<Rightarrow> unit outcome \<times> ril_worker" where
  "sendAck H w =
     (case GetRadioProxy H w of
        (NullDeref, w1) \<Rightarrow> (NullDeref, w1)
      | (OutOfBounds, w1) \<Rightarrow> (OutOfBounds, w1)
      | (Returned u, w1) \<Rightarrow>
          (case mRadioProxy w1 of
             Some p \<Rightarrow> (Returned (), emit (Invoke (Some p) (''responseAcknowledgement'', [])) w1)
           | None \<Rightarrow> (Returned (), emit (ERROR ''sendAck mRadioProxy == nullptr'') w1)))"


section \<open>Wi-Fi orchestrator (WifiNative)\<close>

text \<open>
  The second part of \<^verbatim>\<open>src/dom/system/gonk/radio/nsRilWorker.cpp\<close>. WifiNative
  sequences calls on four process-wide managers (\<^verbatim>\<open>s_WifiHal\<close>,
  \<^verbatim>\<open>s_WificondControl\<close>, \<^verbatim>\<open>s_SupplicantStaManager\<close>, \<^verbatim>\<open>s_SoftapManager\<close>)
  and on two event services. Their implementations are outside the sources at hand, so
  they are a parameter: every call on them goes through \<open>vendor_call\<close>, which asks the
  parameter for the reply and appends the call to a trace. Logging
  (\<^verbatim>\<open>WIFI_LOGE\<close>, \<^verbatim>\<open>WIFI_LOGD\<close>) changes nothing and is left out.
\<close>

subsection \<open>Results, vendor calls and replies\<close>

text \<open>
  The result enumeration of \<^verbatim>\<open>nsIWifiResult\<close>: the three codes that this file
  names, and the remaining codes by number.
\<close>

datatype Result_t = SUCCESS | ERROR_UNKNOWN | ERROR_COMMAND_FAILED | ERROR_OTHER nat

text \<open>
  Modelled from the spec: the macro \<^verbatim>\<open>CHECK_SUCCESS\<close>, whose header is not under
  \<^verbatim>\<open>src/\<close>. The spec's rule for the start-up loops is "ran out of retries, fail";
  the macro turns a condition into \<^verbatim>\<open>SUCCESS\<close> or a failure code of the result
  enumeration.
\<close>

definition CHECK_SUCCESS :: "bool \<Rightarrow> Result_t" where
  "CHECK_SUCCESS condition = (if condition then SUCCESS else ERROR_COMMAND_FAILED)"

definition CONNECTION_RETRY_INTERVAL_US :: int where
  "CONNECTION_RETRY_INTERVAL_US = 100000"

definition CONNECTION_RETRY_TIMES :: nat where
  "CONNECTION_RETRY_TIMES = 50"

datatype IfaceType = STA | AP

text \<open>
  The calls, named manager first. String arguments are the interface names and country
  codes passed by value; structures passed by pointer and not read by this file
  (scan settings, debug level, network and soft-AP configuration) are not part of the
  call. \<open>usleep\<close> is the sleep of the retry loops.
\<close>

datatype vcall =
    WifiHal_InitHalInterface
  | WifiHal_GetCapabilities
  | WifiHal_GetDriverModuleInfo
  | WifiHal_SetLowLatencyMode bool
  | WifiHal_StartWifiModule
  | WifiHal_ConfigChipAndCreateIface IfaceType
  | WifiHal_TearDownInterface IfaceType
  | WifiHal_GetStaCapabilities
  | WifiHal_SetSoftapCountryCode string
  | Wificond_InitWificondInterface
  | Wificond_StartSupplicant
  | Wificond_StopSupplicant
  | Wificond_SetupClientIface string
  | Wificond_TearDownClientInterface string
  | Wificond_StartSingleScan
  | Wificond_StopSingleScan
  | Wificond_GetScanResults
  | Wificond_GetChannelsForBand "32 word"
  | Wificond_SetupApIface string
  | Wificond_TearDownSoftapInterface string
  | Wificond_GetSoftapStations
  | Supplicant_IsInterfaceInitializing
  | Supplicant_IsInterfaceReady
  | Supplicant_InitInterface
  | Supplicant_DeinitInterface
  | Supplicant_SetConcurrencyPriority bool
  | Supplicant_RegisterDeathHandler
  | Supplicant_UnregisterDeathHandler
  | Supplicant_SetupStaInterface string
  | Supplicant_GetMacAddress
  | Supplicant_GetSupplicantDebugLevel
  | Supplicant_SetSupplicantDebugLevel
  | Supplicant_SetPowerSave bool
  | Supplicant_SetSuspendMode bool
  | Supplicant_SetExternalSim bool
  | Supplicant_SetAutoReconnect bool
  | Supplicant_SetBtCoexistenceMode "8 word"
  | Supplicant_SetBtCoexistenceScanMode bool
  | Supplicant_SetCountryCode string
  | Supplicant_ConnectToNetwork
  | Supplicant_Reconnect
  | Supplicant_Reassociate
  | Supplicant_Disconnect
  | Supplicant_RemoveNetworks
  | Softap_InitInterface
  | Softap_IsInterfaceReady
  | Softap_DeinitInterface
  | Softap_StartSoftap string string
  | Softap_StopSoftap string
  | WificondEventService_CreateService string
  | WificondEventService_RegisterEventCallback
  | SoftapEventService_CreateService string
  | SoftapEventService_RegisterEventCallback
  | usleep int

text \<open>
  A scan result as wificond delivers it (the structure is the platform's; the widths are
  those of its fields).
\<close>

record NativeScanResult =
  ssid :: "8 word list"
  bssid :: "8 word list"
  info_element :: "8 word list"
  frequency :: "32 word"
  signal_mbm :: int32
  tsf :: "64 word"
  capability :: "16 word"
  associated :: bool

text \<open>
  What a call gives back: its status, its boolean (or whether the pointer it returns is
  not null), and the values it leaves in its out-parameters. A call uses the fields that
  its signature has.
\<close>

record vreply =
  r_status :: Result_t
  r_flag :: bool
  r_text :: string
  r_text2 :: string
  r_num :: "32 word"
  r_scan :: "NativeScanResult list"
  r_channels :: "int32 list"

text \<open>
  The vendor side answers a call knowing every call made before it, which covers any
  deterministic behaviour of the managers.
\<close>

type_synonym vendor = "vcall list \<Rightarrow> vcall \<Rightarrow> vreply"

record wifi_native =
  mStaInterfaceName :: string
  mApInterfaceName :: string
  trace :: "vcall list"

definition vendor_call :: "vendor \<Rightarrow> vcall \<Rightarrow> wifi_native \<Rightarrow> vreply \<times> wifi_native" where
  "vendor_call V c w = (V (trace w) c, w\<lparr>trace := trace w @ [c]\<rparr>)"

definition status_call :: "vendor \<Rightarrow> vcall \<Rightarrow> wifi_native \<Rightarrow> Result_t \<times> wifi_native" where
  "status_call V c w = (r_status (V (trace w) c), w\<lparr>trace := trace w @ [c]\<rparr>)"

subsection \<open>Start-up and tear-down sequences\<close>

definition InitHal :: "vendor \<Rightarrow> wifi_native \<Rightarrow> Result_t \<times> wifi_native" where
  "InitHal V w =
     (let (result, w) = status_call V WifiHal_InitHalInterface w in
      if result \<noteq> SUCCESS then (result, w) else
      let (result, w) = status_call V Wificond_InitWificondInterface w in
      if result \<noteq> SUCCESS then (result, w) else
      let (r, w) = vendor_call V Supplicant_IsInterfaceInitializing w in
      if \<not> r_flag r then
        (let (result, w) = status_call V Supplicant_InitInterface w in
         if result \<noteq> SUCCESS then (result, w) else (SUCCESS, w))
      else (SUCCESS, w))"

text \<open>
  The loop of \<^verbatim>\<open>StartSupplicant\<close> and of \<^verbatim>\<open>StartAndConnectHostapd\<close>, which
  differ only in the manager whose \<^verbatim>\<open>IsInterfaceReady\<close> they poll (the call
  \<open>ready\<close>):
  \<^verbatim>\<open>while (!connected && connectTries++ < CONNECTION_RETRY_TIMES)\<close>. The counter
  is compared before it is incremented; \<open>connected\<close> is false whenever the condition
  is evaluated, since setting it leaves the loop.
\<close>

function retry_loop :: "vendor \<Rightarrow> vcall \<Rightarrow> nat \<Rightarrow> wifi_native \<Rightarrow> bool \<times> wifi_native" where
  "retry_loop V ready connectTries w =
     (if connectTries < CONNECTION_RETRY_TIMES then
        (if r_flag (fst (vendor_call V ready w)) then (True, snd (vendor_call V ready w))
         else retry_loop V ready (connectTries + 1)
                (snd (vendor_call V (usleep CONNECTION_RETRY_INTERVAL_US)
                        (snd (vendor_call V ready w)))))
      else (False, w))"
  by pat_completeness auto
termination
  by (relation "measure (\<lambda>(V, ready, connectTries, w). CONNECTION_RETRY_TIMES - connectTries)") auto

declare retry_loop.simps [simp del]

text \<open>
  \<^verbatim>\<open>StartSupplicant\<close>. When the first readiness check reports ready, the block
  that initialises the interface and tests its status is skipped; the binding of
  \<open>SUCCESS\<close> in that branch stands for the skipped test.
\<close>

definition StartSupplicant :: "vendor \<Rightarrow> wifi_native \<Rightarrow> Result_t \<times> wifi_native" where
  "StartSupplicant V w =
     (let (r, w) = vendor_call V Supplicant_IsInterfaceReady w;
          (result, w) = (if \<not> r_flag r then status_call V Supplicant_InitInterface w
                         else (SUCCESS, w)) in
      if result \<noteq> SUCCESS then (result, w) else
      let (result, w) = status_call V Wificond_StartSupplicant w in
      if result \<noteq> SUCCESS then (result, w) else
      let (connected, w) = retry_loop V Supplicant_IsInterfaceReady 0 w in
      (CHECK_SUCCESS connected, w))"

definition StopSupplicant :: "vendor \<Rightarrow> wifi_native \<Rightarrow> Result_t \<times> wifi_native" where
  "StopSupplicant V w =
     (let (result, w) = status_call V Supplicant_DeinitInterface w in
      if result \<noteq> SUCCESS then (result, w) else
      let (result, w) = status_call V Wificond_StopSupplicant w in
      if result \<noteq> SUCCESS then (result, w) else
      (SUCCESS, w))"

text \<open>
  \<^verbatim>\<open>StartWifi\<close>. \<open>aIfaceName\<close> is the caller's string, assigned only on the last
  path. The status of \<^verbatim>\<open>ConfigChipAndCreateIface\<close> is not stored; the name it
  writes goes to \<^verbatim>\<open>mStaInterfaceName\<close>.
\<close>

definition StartWifi :: "vendor \<Rightarrow> string \<Rightarrow> wifi_native \<Rightarrow> Result_t \<times> string \<times> wifi_native" where
  "StartWifi V aIfaceName w =
     (let (result, w) = status_call V WifiHal_StartWifiModule w in
      if result \<noteq> SUCCESS then (result, aIfaceName, w) else
      let (r, w) = vendor_call V (WifiHal_ConfigChipAndCreateIface STA) w;
          w = w\<lparr>mStaInterfaceName := r_text r\<rparr>;
          (eventService, w) = vendor_call V (WificondEventService_CreateService (mStaInterfaceName w)) w in
      if \<not> r_flag eventService then (ERROR_COMMAND_FAILED, aIfaceName, w) else
      let (r, w) = vendor_call V WificondEventService_RegisterEventCallback w;
          (result, w) = StartSupplicant V w in
      if result \<noteq> SUCCESS then (result, aIfaceName, w) else
      let (r, w) = vendor_call V Supplicant_RegisterDeathHandler w;
          (result, w) = status_call V (Wificond_SetupClientIface (mStaInterfaceName w)) w in
      if result \<noteq> SUCCESS then
        (let (r, w) = vendor_call V (Wificond_TearDownClientInterface (mStaInterfaceName w)) w
         in (result, aIfaceName, w))
      else
      let (result, w) = status_call V (Supplicant_SetupStaInterface (mStaInterfaceName w)) w in
      if result \<noteq> SUCCESS then (result, aIfaceName, w) else
      (CHECK_SUCCESS (length (mStaInterfaceName w) > 0), mStaInterfaceName w, w))"

definition StopWifi :: "vendor \<Rightarrow> wifi_native \<Rightarrow> Result_t \<times> wifi_native" where
  "StopWifi V w =
     (let (result, w) = StopSupplicant V w in
      if result \<noteq> SUCCESS then (result, w) else
      let (result, w) = status_call V (Wificond_TearDownClientInterface (mStaInterfaceName w)) w in
      if result \<noteq> SUCCESS then (result, w) else
      let (r, w) = vendor_call V Supplicant_UnregisterDeathHandler w;
          (result, w) = status_call V (WifiHal_TearDownInterface STA) w in
      if result \<noteq> SUCCESS then (result, w) else
      (SUCCESS, w))"

definition StartAndConnectHostapd :: "vendor \<Rightarrow> wifi_native \<Rightarrow> Result_t \<times> wifi_native" where
  "StartAndConnectHostapd V w =
     (let (result, w) = status_call V Softap_InitInterface w in
      if result \<noteq> SUCCESS then (result, w) else
      let (connected, w) = retry_loop V Softap_IsInterfaceReady 0 w in
      (CHECK_SUCCESS connected, w))"

definition StopHostapd :: "vendor \<Rightarrow> wifi_native \<Rightarrow> Result_t \<times> wifi_native" where
  "StopHostapd V w =
     (let (result, w) = status_call V Softap_DeinitInterface w in
      if result \<noteq> SUCCESS then (result, w) else
      (SUCCESS, w))"

definition StartSoftAp :: "vendor \<Rightarrow> string \<Rightarrow> string \<Rightarrow> wifi_native \<Rightarrow> Result_t \<times> string \<times> wifi_native" where
  "StartSoftAp V countryCode aIfaceName w =
     (let (result, w) = status_call V WifiHal_StartWifiModule w in
      if result \<noteq> SUCCESS then (result, aIfaceName, w) else
      let (result, w) = StartAndConnectHostapd V w in
      if result \<noteq> SUCCESS then (result, aIfaceName, w) else
      let (r, w) = vendor_call V (WifiHal_ConfigChipAndCreateIface AP) w;
          w = w\<lparr>mApInterfaceName := r_text r\<rparr> in
      if r_status r \<noteq> SUCCESS then (r_status r, aIfaceName, w) else
      let (eventService, w) = vendor_call V (SoftapEventService_CreateService (mApInterfaceName w)) w in
      if \<not> r_flag eventService then (ERROR_COMMAND_FAILED, aIfaceName, w) else
      let (r, w) = vendor_call V SoftapEventService_RegisterEventCallback w;
          (result, w) = status_call V (Wificond_SetupApIface (mApInterfaceName w)) w in
      if result \<noteq> SUCCESS then
        (let (r, w) = vendor_call V (Wificond_TearDownSoftapInterface (mApInterfaceName w)) w
         in (result, aIfaceName, w))
      else
      let (result, w) = status_call V (WifiHal_SetSoftapCountryCode countryCode) w in
      if result \<noteq> SUCCESS then (result, aIfaceName, w) else
      let (result, w) = status_call V (Softap_StartSoftap (mApInterfaceName w) countryCode) w in
      if result \<noteq> SUCCESS then (result, aIfaceName, w) else
      (CHECK_SUCCESS (length (mApInterfaceName w) > 0), mApInterfaceName w, w))"

definition StopSoftAp :: "vendor \<Rightarrow> wifi_native \<Rightarrow> Result_t \<times> wifi_native" where
  "StopSoftAp V w =
     (let (result, w) = status_call V (Softap_StopSoftap (mApInterfaceName w)) w in
      if result \<noteq> SUCCESS then (result, w) else
      let (result, w) = status_call V (Wificond_TearDownSoftapInterface (mApInterfaceName w)) w in
      if result \<noteq> SUCCESS then (result, w) else
      let (result, w) = StopHostapd V w in
      if result \<noteq> SUCCESS then (result, w) else
      let (result, w) = status_call V (WifiHal_TearDownInterface AP) w in
      if result \<noteq> SUCCESS then (result, w) else
      (SUCCESS, w))"

definition Connect :: "vendor \<Rightarrow> wifi_native \<Rightarrow> Result_t \<times> wifi_native" where
  "Connect V w =
     (let (r, w) = vendor_call V Wificond_StopSingleScan w;
          (result, w) = status_call V Supplicant_ConnectToNetwork w in
      if result \<noteq> SUCCESS then (result, w) else
      (SUCCESS, w))"


subsection \<open>The single-call methods\<close>

text \<open>
  Each returns the status of one call on a manager; a getter also hands back the value
  that the call leaves in the caller's out-parameter.
\<close>

definition DeinitHal :: Result_t where
  "DeinitHal = SUCCESS"

definition GetCapabilities :: "vendor \<Rightarrow> wifi_native \<Rightarrow> Result_t \<times> 32 word \<times> wifi_native" where
  "GetCapabilities V w =
     (let (r, w) = vendor_call V WifiHal_GetCapabilities w in (r_status r, r_num r, w))"

definition GetDriverModuleInfo :: "vendor \<Rightarrow> wifi_native \<Rightarrow> Result_t \<times> string \<times> string \<times> wifi_native" where
  "GetDriverModuleInfo V w =
     (let (r, w) = vendor_call V WifiHal_GetDriverModuleInfo w
      in (r_status r, r_text r, r_text2 r, w))"

definition GetMacAddress :: "vendor \<Rightarrow> wifi_native \<Rightarrow> Result_t \<times> string \<times> wifi_native" where
  "GetMacAddress V w =
     (let (r, w) = vendor_call V Supplicant_GetMacAddress w in (r_status r, r_text r, w))"

definition GetClientInterfaceName :: "wifi_native \<Rightarrow> Result_t \<times> string" where
  "GetClientInterfaceName w =
     (CHECK_SUCCESS (length (mStaInterfaceName w) > 0), mStaInterfaceName w)"

definition GetSoftApInterfaceName :: "wifi_native \<Rightarrow> Result_t \<times> string" where
  "GetSoftApInterfaceName w =
     (CHECK_SUCCESS (length (mApInterfaceName w) > 0), mApInterfaceName w)"

definition GetStaCapabilities :: "vendor \<Rightarrow> wifi_native \<Rightarrow> Result_t \<times> 32 word \<times> wifi_native" where
  "GetStaCapabilities V w =
     (let (r, w) = vendor_call V WifiHal_GetStaCapabilities w in (r_status r, r_num r, w))"

definition GetDebugLevel :: "vendor \<Rightarrow> wifi_native \<Rightarrow> Result_t \<times> 32 word \<times> wifi_native" where
  "GetDebugLevel V w =
     (let (r, w) = vendor_call V Supplicant_GetSupplicantDebugLevel w
      in (r_status r, r_num r, w))"

definition GetScanResults :: "vendor \<Rightarrow> wifi_native \<Rightarrow> Result_t \<times> NativeScanResult list \<times> wifi_native" where
  "GetScanResults V w =
     (let (r, w) = vendor_call V Wificond_GetScanResults w in (r_status r, r_scan r, w))"

definition GetPnoScanResults :: Result_t where
  "GetPnoScanResults = SUCCESS"

definition StartPnoScan :: Result_t where
  "StartPnoScan = SUCCESS"

definition StopPnoScan :: Result_t where
  "StopPnoScan = SUCCESS"

definition GetChannelsForBand :: "vendor \<Rightarrow> 32 word \<Rightarrow> wifi_native \<Rightarrow> Result_t \<times> int32 list \<times> wifi_native" where
  "GetChannelsForBand V aBandMask w =
     (let (r, w) = vendor_call V (Wificond_GetChannelsForBand aBandMask) w
      in (r_status r, r_channels r, w))"

definition GetSoftapStations :: "vendor \<Rightarrow> wifi_native \<Rightarrow> Result_t \<times> 32 word \<times> wifi_native" where
  "GetSoftapStations V w =
     (let (r, w) = vendor_call V Wificond_GetSoftapStations w in (r_status r, r_num r, w))"

definition SetLowLatencyMode :: "vendor \<Rightarrow> bool \<Rightarrow> wifi_native \<Rightarrow> Result_t \<times> wifi_native" where
  "SetLowLatencyMode V aEnable w = status_call V (WifiHal_SetLowLatencyMode aEnable) w"

definition SetConcurrencyPriority :: "vendor \<Rightarrow> bool \<Rightarrow> wifi_native \<Rightarrow> Result_t \<times> wifi_native" where
  "SetConcurrencyPriority V aEnable w = status_call V (Supplicant_SetConcurrencyPriority aEnable) w"

definition SetDebugLevel :: "vendor \<Rightarrow> wifi_native \<Rightarrow> Result_t \<times> wifi_native" where
  "SetDebugLevel V w = status_call V Supplicant_SetSupplicantDebugLevel w"

definition SetPowerSave :: "vendor \<Rightarrow> bool \<Rightarrow> wifi_native \<Rightarrow> Result_t \<times> wifi_native" where
  "SetPowerSave V aEnable w = status_call V (Supplicant_SetPowerSave aEnable) w"

definition SetSuspendMode :: "vendor \<Rightarrow> bool \<Rightarrow> wifi_native \<Rightarrow> Result_t \<times> wifi_native" where
  "SetSuspendMode V aEnable w = status_call V (Supplicant_SetSuspendMode aEnable) w"

definition SetExternalSim :: "vendor \<Rightarrow> bool \<Rightarrow> wifi_native \<Rightarrow> Result_t \<times> wifi_native" where
  "SetExternalSim V aEnable w = status_call V (Supplicant_SetExternalSim aEnable) w"

definition SetAutoReconnect :: "vendor \<Rightarrow> bool \<Rightarrow> wifi_native \<Rightarrow> Result_t \<times> wifi_native" where
  "SetAutoReconnect V aEnable w = status_call V (Supplicant_SetAutoReconnect aEnable) w"

definition SetBtCoexistenceMode :: "vendor \<Rightarrow> 8 word \<Rightarrow> wifi_native \<Rightarrow> Result_t \<times> wifi_native" where
  "SetBtCoexistenceMode V aMode w = status_call V (Supplicant_SetBtCoexistenceMode aMode) w"

definition SetBtCoexistenceScanMode :: "vendor \<Rightarrow> bool \<Rightarrow> wifi_native \<Rightarrow> Result_t \<times> wifi_native" where
  "SetBtCoexistenceScanMode V aEnable w = status_call V (Supplicant_SetBtCoexistenceScanMode aEnable) w"

definition SetCountryCode :: "vendor \<Rightarrow> string \<Rightarrow> wifi_native \<Rightarrow> Result_t \<times> wifi_native" where
  "SetCountryCode V aCountryCode w = status_call V (Supplicant_SetCountryCode aCountryCode) w"

definition StartSingleScan :: "vendor \<Rightarrow> wifi_native \<Rightarrow> Result_t \<times> wifi_native" where
  "StartSingleScan V w = status_call V Wificond_StartSingleScan w"

definition StopSingleScan :: "vendor \<Rightarrow> wifi_native \<Rightarrow> Result_t \<times> wifi_native" where
  "StopSingleScan V w = status_call V Wificond_StopSingleScan w"

definition Reconnect :: "vendor \<Rightarrow> wifi_native \<Rightarrow> Result_t \<times> wifi_native" where
  "Reconnect V w = status_call V Supplicant_Reconnect w"

definition Reassociate :: "vendor \<Rightarrow> wifi_native \<Rightarrow> Result_t \<times> wifi_native" where
  "Reassociate V w = status_call V Supplicant_Reassociate w"

definition Disconnect :: "vendor \<Rightarrow> wifi_native \<Rightarrow> Result_t \<times> wifi_native" where
  "Disconnect V w = status_call V Supplicant_Disconnect w"

definition RemoveNetworks :: "vendor \<Rightarrow> wifi_native \<Rightarrow> Result_t \<times> wifi_native" where
  "RemoveNetworks V w = status_call V Supplicant_RemoveNetworks w"

subsection \<open>\<^verbatim>\<open>ExecuteCommand\<close>\<close>

text \<open>
  The command codes of \<^verbatim>\<open>nsIWifiCommand\<close> that the dispatcher tests, in the order
  of its tests, and every other code by number.
\<close>

datatype nsIWifiCommand =
    INITIALIZE
  | GET_MODULE_VERSION
  | GET_CAPABILITIES
  | SET_LOW_LATENCY_MODE
  | SET_CONCURRENCY_PRIORITY
  | START_WIFI
  | STOP_WIFI
  | GET_MAC_ADDRESS
  | GET_STA_IFACE
  | GET_STA_CAPABILITIES
  | GET_DEBUG_LEVEL
  | SET_DEBUG_LEVEL
  | SET_POWER_SAVE
  | SET_SUSPEND_MODE
  | SET_EXTERNAL_SIM
  | SET_AUTO_RECONNECT
  | SET_COUNTRY_CODE
  | SET_BT_COEXIST_MODE
  | SET_BT_COEXIST_SCAN_MODE
  | START_SINGLE_SCAN
  | STOP_SINGLE_SCAN
  | START_PNO_SCAN
  | STOP_PNO_SCAN
  | GET_SCAN_RESULTS
  | GET_PNO_SCAN_RESULTS
  | GET_CHANNELS_FOR_BAND
  | CONNECT
  | RECONNECT
  | REASSOCIATE
  | DISCONNECT
  | REMOVE_NETWORKS
  | START_SOFTAP
  | STOP_SOFTAP
  | GET_AP_IFACE
  | GET_SOFTAP_STATION_NUMBER
  | OTHER_COMMAND "32 word"

text \<open>
  The fields of the request that the dispatcher reads. \<open>mSoftapCountryCode\<close> stands
  for \<^verbatim>\<open>mSoftapConfig.mCountryCode\<close>.
\<close>

record CommandOptions =
  mId :: "32 word"
  mCmd :: nsIWifiCommand
  mEnabled :: bool
  mCountryCode :: string
  mBtCoexistenceMode :: "8 word"
  mBandMask :: "32 word"
  mSoftapCountryCode :: string

text \<open>
  One converted scan result, with the arguments of its constructor in their order: ssid,
  bssid, information elements, frequency, tsf, capability, signal, associated.
\<close>

datatype nsScanResult =
  nsScanResult string string "8 word list" "32 word" "32 word" "32 word" int32 bool

record nsWifiResult =
  mId :: "32 word"
  mStatus :: Result_t
  mDriverVersion :: string
  mFirmwareVersion :: string
  mCapabilities :: "32 word"
  mStaInterface :: string
  mMacAddress :: string
  mStaCapabilities :: "32 word"
  mDebugLevel :: "32 word"
  mApInterface :: string
  mNumStations :: "32 word"
  mScanResults :: "nsScanResult list"
  mChannels :: "int32 list"

text \<open>
  Modelled from the spec: \<^verbatim>\<open>nsWifiResult::updateScanResults\<close> and
  \<^verbatim>\<open>nsWifiResult::updateChannels\<close>, whose bodies are not under \<^verbatim>\<open>src/\<close>.
  A response carries a typed payload; each of the two stores the array it is given.
\<close>

definition updateScanResults :: "nsScanResult list \<Rightarrow> nsWifiResult \<Rightarrow> nsWifiResult" where
  "updateScanResults scanResults aResult = aResult\<lparr>mScanResults := scanResults\<rparr>"

definition updateChannels :: "int32 list \<Rightarrow> nsWifiResult \<Rightarrow> nsWifiResult" where
  "updateChannels channel_array aResult = aResult\<lparr>mChannels := channel_array\<rparr>"

text \<open>
  The conversion of one scan result. The ssid bytes become a C string, which ends at the
  first zero byte; \<open>ConvertMacToString\<close> is a helper that the sources at hand do not
  define, so it is a parameter. The 64-bit tsf and the 16-bit capability are stored in
  32-bit variables.
\<close>

definition c_str :: "8 word list \<Rightarrow> string" where
  "c_str bytes = map (\<lambda>b. char_of (unat b)) (takeWhile (\<lambda>b. b \<noteq> 0) bytes)"

definition convert_scan_result :: "(8 word list \<Rightarrow> string) \<Rightarrow> NativeScanResult \<Rightarrow> nsScanResult" where
  "convert_scan_result ConvertMacToString result =
     nsScanResult (c_str (ssid result)) (ConvertMacToString (bssid result))
       (info_element result) (frequency result) (ucast (tsf result))
       (ucast (capability result)) (signal_mbm result) (associated result)"

text \<open>
  The dispatcher: the identifier is copied first, then the one method of the command runs
  and its status is stored. The result is the returned boolean, the result object and
  the state of WifiNative.
\<close>

definition ExecuteCommand ::
  "vendor \<Rightarrow> (8 word list \<Rightarrow> string) \<Rightarrow> CommandOptions \<Rightarrow> nsWifiResult \<Rightarrow> wifi_native
     \<Rightarrow> bool \<times> nsWifiResult \<times> wifi_native" where
  "ExecuteCommand V ConvertMacToString aOptions aResult0 w =
     (let aResult = aResult0\<lparr>nsWifiResult.mId := CommandOptions.mId aOptions\<rparr> in
      case mCmd aOptions of
        INITIALIZE \<Rightarrow>
          (let (s, w) = InitHal V w in (True, aResult\<lparr>mStatus := s\<rparr>, w))
      | GET_MODULE_VERSION \<Rightarrow>
          (let (s, d, f, w) = GetDriverModuleInfo V w
           in (True, aResult\<lparr>mDriverVersion := d, mFirmwareVersion := f, mStatus := s\<rparr>, w))
      | GET_CAPABILITIES \<Rightarrow>
          (let (s, c, w) = GetCapabilities V w
           in (True, aResult\<lparr>mCapabilities := c, mStatus := s\<rparr>, w))
      | SET_LOW_LATENCY_MODE \<Rightarrow>
          (let (s, w) = SetLowLatencyMode V (mEnabled aOptions) w
           in (True, aResult\<lparr>mStatus := s\<rparr>, w))
      | SET_CONCURRENCY_PRIORITY \<Rightarrow>
          (let (s, w) = SetConcurrencyPriority V (mEnabled aOptions) w
           in (True, aResult\<lparr>mStatus := s\<rparr>, w))
      | START_WIFI \<Rightarrow>
          (let (s, n, w) = StartWifi V (mStaInterface aResult) w
           in (True, aResult\<lparr>mStaInterface := n, mStatus := s\<rparr>, w))
      | STOP_WIFI \<Rightarrow>
          (let (s, w) = StopWifi V w in (True, aResult\<lparr>mStatus := s\<rparr>, w))
      | GET_MAC_ADDRESS \<Rightarrow>
          (let (s, m, w) = GetMacAddress V w
           in (True, aResult\<lparr>mMacAddress := m, mStatus := s\<rparr>, w))
      | GET_STA_IFACE \<Rightarrow>
          (let (s, n) = GetClientInterfaceName w
           in (True, aResult\<lparr>mStaInterface := n, mStatus := s\<rparr>, w))
      | GET_STA_CAPABILITIES \<Rightarrow>
          (let (s, c, w) = GetStaCapabilities V w
           in (True, aResult\<lparr>mStaCapabilities := c, mStatus := s\<rparr>, w))
      | GET_DEBUG_LEVEL \<Rightarrow>
          (let (s, l, w) = GetDebugLevel V w
           in (True, aResult\<lparr>mDebugLevel := l, mStatus := s\<rparr>, w))
      | SET_DEBUG_LEVEL \<Rightarrow>
          (let (s, w) = SetDebugLevel V w in (True, aResult\<lparr>mStatus := s\<rparr>, w))
      | SET_POWER_SAVE \<Rightarrow>
          (let (s, w) = SetPowerSave V (mEnabled aOptions) w
           in (True, aResult\<lparr>mStatus := s\<rparr>, w))
      | SET_SUSPEND_MODE \<Rightarrow>
          (let (s, w) = SetSuspendMode V (mEnabled aOptions) w
           in (True, aResult\<lparr>mStatus := s\<rparr>, w))
      | SET_EXTERNAL_SIM \<Rightarrow>
          (let (s, w) = SetExternalSim V (mEnabled aOptions) w
           in (True, aResult\<lparr>mStatus := s\<rparr>, w))
      | SET_AUTO_RECONNECT \<Rightarrow>
          (let (s, w) = SetAutoReconnect V (mEnabled aOptions) w
           in (True, aResult\<lparr>mStatus := s\<rparr>, w))
      | SET_COUNTRY_CODE \<Rightarrow>
          (let (s, w) = SetCountryCode V (mCountryCode aOptions) w
           in (True, aResult\<lparr>mStatus := s\<rparr>, w))
      | SET_BT_COEXIST_MODE \<Rightarrow>
          (let (s, w) = SetBtCoexistenceMode V (mBtCoexistenceMode aOptions) w
           in (True, aResult\<lparr>mStatus := s\<rparr>, w))
      | SET_BT_COEXIST_SCAN_MODE \<Rightarrow>
          (let (s, w) = SetBtCoexistenceScanMode V (mEnabled aOptions) w
           in (True, aResult\<lparr>mStatus := s\<rparr>, w))
      | START_SINGLE_SCAN \<Rightarrow>
          (let (s, w) = StartSingleScan V w in (True, aResult\<lparr>mStatus := s\<rparr>, w))
      | STOP_SINGLE_SCAN \<Rightarrow>
          (let (s, w) = StopSingleScan V w in (True, aResult\<lparr>mStatus := s\<rparr>, w))
      | START_PNO_SCAN \<Rightarrow> (True, aResult\<lparr>mStatus := StartPnoScan\<rparr>, w)
      | STOP_PNO_SCAN \<Rightarrow> (True, aResult\<lparr>mStatus := StopPnoScan\<rparr>, w)
      | GET_SCAN_RESULTS \<Rightarrow>
          (let (s, nativeScanResults, w) = GetScanResults V w;
               aResult = aResult\<lparr>mStatus := s\<rparr> in
           if nativeScanResults = [] then (False, aResult, w)
           else (True,
                 updateScanResults
                   (map (convert_scan_result ConvertMacToString) nativeScanResults) aResult,
                 w))
      | GET_PNO_SCAN_RESULTS \<Rightarrow> (True, aResult\<lparr>mStatus := GetPnoScanResults\<rparr>, w)
      | GET_CHANNELS_FOR_BAND \<Rightarrow>
          (let (s, channels, w) = GetChannelsForBand V (mBandMask aOptions) w;
               aResult = aResult\<lparr>mStatus := s\<rparr> in
           if length channels > 0 then (True, updateChannels channels aResult, w)
           else (True, aResult, w))
      | CONNECT \<Rightarrow>
          (let (s, w) = Connect V w in (True, aResult\<lparr>mStatus := s\<rparr>, w))
      | RECONNECT \<Rightarrow>
          (let (s, w) = Reconnect V w in (True, aResult\<lparr>mStatus := s\<rparr>, w))
      | REASSOCIATE \<Rightarrow>
          (let (s, w) = Reassociate V w in (True, aResult\<lparr>mStatus := s\<rparr>, w))
      | DISCONNECT \<Rightarrow>
          (let (s, w) = Disconnect V w in (True, aResult\<lparr>mStatus := s\<rparr>, w))
      | REMOVE_NETWORKS \<Rightarrow>
          (let (s, w) = RemoveNetworks V w in (True, aResult\<lparr>mStatus := s\<rparr>, w))
      | START_SOFTAP \<Rightarrow>
          (let (s, n, w) = StartSoftAp V (mSoftapCountryCode aOptions) (mApInterface aResult) w
           in (True, aResult\<lparr>mApInterface := n, mStatus := s\<rparr>, w))
      | STOP_SOFTAP \<Rightarrow>
          (let (s, w) = StopSoftAp V w in (True, aResult\<lparr>mStatus := s\<rparr>, w))
      | GET_AP_IFACE \<Rightarrow>
          (let (s, n) = GetSoftApInterfaceName w
           in (True, aResult\<lparr>mApInterface := n, mStatus := s\<rparr>, w))
      | GET_SOFTAP_STATION_NUMBER \<Rightarrow>
          (let (s, n, w) = GetSoftapStations V w
           in (True, aResult\<lparr>mNumStations := n, mStatus := s\<rparr>, w))
      | OTHER_COMMAND c \<Rightarrow> (False, aResult, w))"


section \<open>The sequencing rule of the spec\<close>

















section \<open>Concrete inputs\<close>

text \<open>
  Inputs at which the functions are evaluated below. \<open>flags on\<close> is the customisation
  whose keys in \<open>on\<close> are true and whose other keys are false, for every slot.
\<close>

definition flags :: "smscb_key list \<Rightarrow> customization" where
  "flags on c k d = (k \<in> set on)"

definition range_if :: "bool \<Rightarrow> int \<Rightarrow> int \<Rightarrow> int list" where
  "range_if b lo hi = (if b then [lo, hi + 1] else [])"

text \<open>
  Vendor sides: one whose managers never report ready, one whose supplicant reports
  ready once its daemon has been started, one that answers every call with success, and
  one that fails a single call \<open>c0\<close> with a given code and out-parameter. Radio
  HALs: one without a service, and one whose service exists and whose every call fails
  in transport.
\<close>

definition reply :: "Result_t \<Rightarrow> bool \<Rightarrow> string \<Rightarrow> vreply" where
  "reply s b n = \<lparr>r_status = s, r_flag = b, r_text = n, r_text2 = [], r_num = 0,
                  r_scan = [], r_channels = []\<rparr>"

definition vendor_never_ready :: vendor where
  "vendor_never_ready tr c =
     (if c = Supplicant_IsInterfaceReady \<or> c = Softap_IsInterfaceReady
      then reply SUCCESS False ''wlan0'' else reply SUCCESS True ''wlan0'')"

definition vendor_started :: vendor where
  "vendor_started tr c =
     (if c = Supplicant_IsInterfaceReady
      then reply SUCCESS (Wificond_StartSupplicant \<in> set tr) ''wlan0''
      else reply SUCCESS True ''wlan0'')"

definition vendor_all_ok :: vendor where
  "vendor_all_ok tr c = reply SUCCESS True ''wlan0''"

definition vendor_fail_at :: "vcall \<Rightarrow> Result_t \<Rightarrow> string \<Rightarrow> vendor" where
  "vendor_fail_at c0 code n tr c =
     (if c = c0 then reply code False n else vendor_started tr c)"

definition wifi_native0 :: wifi_native where
  "wifi_native0 = \<lparr>mStaInterfaceName = [], mApInterfaceName = [], trace = []\<rparr>"

definition hal_unavailable :: radio_hal where
  "hal_unavailable = \<lparr>getService = (\<lambda>n. None), linkToDeath = (\<lambda>p. True),
                       isOk = (\<lambda>p c. True)\<rparr>"

definition hal_failing :: radio_hal where
  "hal_failing = \<lparr>getService = (\<lambda>n. Some 1), linkToDeath = (\<lambda>p. True),
                   isOk = (\<lambda>p c. False)\<rparr>"

section \<open>Properties of the cell-broadcast configurator\<close>

subsection \<open>Decimal rendering is injective\<close>

lemma digit_char_inj: "a < 10 \<Longrightarrow> b < 10 \<Longrightarrow> digit_char a = digit_char b \<Longrightarrow> a = b"
  by (simp add: digit_char_def)

lemma digit_char_not_comma: "d < 10 \<Longrightarrow> digit_char d \<noteq> CHR '',''"
  by (simp add: digit_char_def char_of_eq_iff take_bit_eq_mod)

lemma digit_char_not_minus: "d < 10 \<Longrightarrow> digit_char d \<noteq> CHR ''-''"
  by (simp add: digit_char_def char_of_eq_iff take_bit_eq_mod)

lemma string_of_nat_small: "n < 10 \<Longrightarrow> string_of_nat n = [digit_char n]"
  by (subst string_of_nat.simps) simp

lemma string_of_nat_large:
  "\<not> n < 10 \<Longrightarrow> string_of_nat n = string_of_nat (n div 10) @ [digit_char (n mod 10)]"
  by (subst string_of_nat.simps) simp

lemma string_of_nat_nonempty: "string_of_nat n \<noteq> []"
  by (subst string_of_nat.simps) simp

lemma string_of_nat_chars: "c \<in> set (string_of_nat n) \<Longrightarrow> \<exists>d<10. c = digit_char d"
proof (induction n rule: string_of_nat.induct)
  case (1 n)
  show ?case
  proof (cases "n < 10")
    case True
    with "1.prems" show ?thesis by (auto simp: string_of_nat_small)
  next
    case False
    from "1.prems" False
    have "c \<in> set (string_of_nat (n div 10)) \<or> c = digit_char (n mod 10)"
      by (auto simp: string_of_nat_large)
    then show ?thesis
    proof
      assume "c \<in> set (string_of_nat (n div 10))"
      with "1.IH" False show ?thesis by blast
    next
      assume "c = digit_char (n mod 10)"
      moreover have "n mod 10 < 10" by simp
      ultimately show ?thesis by blast
    qed
  qed
qed

lemma string_of_nat_inj: "string_of_nat n = string_of_nat m \<Longrightarrow> n = m"
proof (induction n arbitrary: m rule: string_of_nat.induct)
  case (1 n)
  show ?case
  proof (cases "n < 10")
    case n: True
    show ?thesis
    proof (cases "m < 10")
      case True
      with n "1.prems" show ?thesis
        by (simp add: digit_char_inj string_of_nat_small)
    next
      case False
      with n "1.prems" have "[digit_char n] = string_of_nat (m div 10) @ [digit_char (m mod 10)]"
        by (simp add: string_of_nat_small string_of_nat_large)
      then have "string_of_nat (m div 10) = []" by simp
      then show ?thesis using string_of_nat_nonempty by blast
    qed
  next
    case n: False
    show ?thesis
    proof (cases "m < 10")
      case True
      with n "1.prems" have "string_of_nat (n div 10) @ [digit_char (n mod 10)] = [digit_char m]"
        by (simp add: string_of_nat_small string_of_nat_large)
      then have "string_of_nat (n div 10) = []" by simp
      then show ?thesis using string_of_nat_nonempty by blast
    next
      case False
      with n "1.prems" have e: "string_of_nat (n div 10) @ [digit_char (n mod 10)]
           = string_of_nat (m div 10) @ [digit_char (m mod 10)]"
        by (simp add: string_of_nat_large)
      then have a: "string_of_nat (n div 10) = string_of_nat (m div 10)"
        and b: "digit_char (n mod 10) = digit_char (m mod 10)" by simp_all
      from a "1.IH" n have "n div 10 = m div 10" by blast
      moreover from b have "n mod 10 = m mod 10" by (simp add: digit_char_inj)
      ultimately show ?thesis by (metis div_mult_mod_eq)
    qed
  qed
qed


lemma string_of_nat_no_comma: "CHR '','' \<notin> set (string_of_nat n)"
proof
  assume "CHR '','' \<in> set (string_of_nat n)"
  then obtain d where "d < 10" and "CHR '','' = digit_char d"
    using string_of_nat_chars by blast
  then show False using digit_char_not_comma [of d] by simp
qed

lemma string_of_nat_no_minus: "CHR ''-'' \<notin> set (string_of_nat n)"
proof
  assume "CHR ''-'' \<in> set (string_of_nat n)"
  then obtain d where "d < 10" and "CHR ''-'' = digit_char d"
    using string_of_nat_chars by blast
  then show False using digit_char_not_minus [of d] by simp
qed

lemma string_of_int_nonempty: "string_of_int i \<noteq> []"
  by (simp add: string_of_int_def string_of_nat_nonempty)

lemma string_of_int_no_comma: "CHR '','' \<notin> set (string_of_int i)"
  by (simp add: string_of_int_def string_of_nat_no_comma)

lemma string_of_int_inj: "string_of_int i = string_of_int j \<Longrightarrow> i = j"
proof -
  assume e: "string_of_int i = string_of_int j"
  have hd_nat: "\<And>n. hd (string_of_nat n) \<noteq> CHR ''-''"
    using string_of_nat_no_minus string_of_nat_nonempty by (metis hd_in_set)
  show ?thesis
  proof (cases "i < 0")
    case i: True
    show ?thesis
    proof (cases "j < 0")
      case True
      with i e have "string_of_nat (nat (- i)) = string_of_nat (nat (- j))"
        by (simp add: string_of_int_def)
      then have "nat (- i) = nat (- j)" by (rule string_of_nat_inj)
      with i True show ?thesis by simp
    next
      case False
      with i e have "CHR ''-'' # string_of_nat (nat (- i)) = string_of_nat (nat j)"
        by (simp add: string_of_int_def)
      then have "hd (string_of_nat (nat j)) = CHR ''-''" by (metis list.sel(1))
      with hd_nat show ?thesis by blast
    qed
  next
    case i: False
    show ?thesis
    proof (cases "j < 0")
      case True
      with i e have "string_of_nat (nat i) = CHR ''-'' # string_of_nat (nat (- j))"
        by (simp add: string_of_int_def)
      then have "hd (string_of_nat (nat i)) = CHR ''-''" by (metis list.sel(1))
      with hd_nat show ?thesis by blast
    next
      case False
      with i e have "string_of_nat (nat i) = string_of_nat (nat j)"
        by (simp add: string_of_int_def)
      then have "nat i = nat j" by (rule string_of_nat_inj)
      with i False show ?thesis by simp
    qed
  qed
qed

lemma comma_split:
  "CHR '','' \<notin> set a \<Longrightarrow> CHR '','' \<notin> set b \<Longrightarrow> a @ CHR '','' # r = b @ CHR '','' # r'
     \<Longrightarrow> a = b \<and> r = r'"
proof (induction a arbitrary: b)
  case Nil
  then show ?case by (cases b) auto
next
  case (Cons x a)
  then show ?case by (cases b) auto
qed

lemma join_comma_Cons:
  "join_comma (s # ss) = (if ss = [] then s else s @ CHR '','' # join_comma ss)"
  by (cases ss) simp_all

lemma join_comma_inj:
  "\<forall>s \<in> set xs. s \<noteq> [] \<and> CHR '','' \<notin> set s \<Longrightarrow>
   \<forall>s \<in> set ys. s \<noteq> [] \<and> CHR '','' \<notin> set s \<Longrightarrow>
   join_comma xs = join_comma ys \<Longrightarrow> xs = ys"
proof (induction xs arbitrary: ys)
  case Nil
  then show ?case
    by (cases ys) (auto simp: join_comma_Cons split: if_splits)
next
  case (Cons x xs)
  show ?case
  proof (cases ys)
    case Nil
    with Cons.prems show ?thesis by (auto simp: join_comma_Cons split: if_splits)
  next
    case (Cons y ys')
    from Cons.prems(1) have x: "x \<noteq> []" "CHR '','' \<notin> set x" by simp_all
    from Cons.prems(2) Cons have y: "y \<noteq> []" "CHR '','' \<notin> set y" by simp_all
    from Cons.prems(3) Cons have e: "join_comma (x # xs) = join_comma (y # ys')" by simp
    show ?thesis
    proof (cases "xs = []")
      case xs: True
      show ?thesis
      proof (cases "ys' = []")
        case True
        with xs e Cons show ?thesis by simp
      next
        case False
        with xs e have "x = y @ CHR '','' # join_comma ys'" by (simp add: join_comma_Cons)
        with x(2) show ?thesis by auto
      qed
    next
      case xs: False
      show ?thesis
      proof (cases "ys' = []")
        case True
        with xs e have "y = x @ CHR '','' # join_comma xs" by (simp add: join_comma_Cons)
        with y(2) show ?thesis by auto
      next
        case False
        with xs e have "x @ CHR '','' # join_comma xs = y @ CHR '','' # join_comma ys'"
          by (simp add: join_comma_Cons)
        with x(2) y(2) have xy: "x = y" and r: "join_comma xs = join_comma ys'"
          using comma_split by blast+
        have "xs = ys'"
          using Cons.IH [OF _ _ r] Cons.prems(1,2) Cons by simp
        with xy Cons show ?thesis by simp
      qed
    qed
  qed
qed

lemma toString_inj: "toString xs = toString ys \<Longrightarrow> xs = ys"
proof -
  assume e: "toString xs = toString ys"
  have "map string_of_int xs = map string_of_int ys"
    by (rule join_comma_inj)
       (use e in \<open>auto simp: toString_def string_of_int_nonempty string_of_int_no_comma\<close>)
  then show ?thesis
    by (simp add: inj_on_def string_of_int_inj inj_map_eq_map[unfolded inj_on_def])
qed

lemma isDifferentConfig_iff: "truthy (isDifferentConfig a b) \<longleftrightarrow> a \<noteq> b"
proof -
  have "a = b \<longleftrightarrow> gsm a = gsm b \<and> cdma a = cdma b" by (cases a, cases b) auto
  moreover have "toString (gsm a) = toString (gsm b) \<longleftrightarrow> gsm a = gsm b"
    by (auto dest: toString_inj)
  moreover have "toString (cdma a) = toString (cdma b) \<longleftrightarrow> cdma a = cdma b"
    by (auto dest: toString_inj)
  ultimately show ?thesis
    by (auto simp: isDifferentConfig_def truthy_def)
qed

subsection \<open>The configuration as a table\<close>

text \<open>
  The lists that \<open>getCellBroadcastConfig\<close> builds, written as one row per
  \<^verbatim>\<open>push\<close> pair with the condition under which the code pushes it.
\<close>

lemma getCellBroadcastConfig_closed:
  "getCellBroadcastConfig K G c =
    \<lparr>cdma =
       [K SERVICE_CATEGORY_CMAS_PRESIDENTIAL_LEVEL_ALERT,
        K SERVICE_CATEGORY_CMAS_PRESIDENTIAL_LEVEL_ALERT + 1]
       @ range_if (G c KEY_ENABLE_EMERGENCY_ALERTS True \<and> G c KEY_ENABLE_CMAS_EXTREME_THREAT_ALERTS True)
           (K SERVICE_CATEGORY_CMAS_EXTREME_THREAT) (K SERVICE_CATEGORY_CMAS_EXTREME_THREAT)
       @ range_if (G c KEY_ENABLE_EMERGENCY_ALERTS True \<and> G c KEY_ENABLE_CMAS_SEVERE_THREAT_ALERTS True)
           (K SERVICE_CATEGORY_CMAS_SEVERE_THREAT) (K SERVICE_CATEGORY_CMAS_SEVERE_THREAT)
       @ range_if (G c KEY_ENABLE_EMERGENCY_ALERTS True \<and> G c KEY_ENABLE_CMAS_AMBER_ALERTS True)
           (K SERVICE_CATEGORY_CMAS_CHILD_ABDUCTION_EMERGENCY)
           (K SERVICE_CATEGORY_CMAS_CHILD_ABDUCTION_EMERGENCY)
       @ range_if (\<not> G c KEY_CARRIER_FORCE_DISABLE_ETWS_CMAS_TEST_BOOL False
                   \<and> G c KEY_ENABLE_EMERGENCY_ALERTS True \<and> G c KEY_ENABLE_CMAS_TEST_ALERTS False)
           (K SERVICE_CATEGORY_CMAS_TEST_MESSAGE) (K SERVICE_CATEGORY_CMAS_TEST_MESSAGE),
     gsm =
       range_if (G c KEY_ENABLE_EMERGENCY_ALERTS True)
           (K MESSAGE_ID_ETWS_EARTHQUAKE_WARNING) (K MESSAGE_ID_ETWS_EARTHQUAKE_AND_TSUNAMI_WARNING)
       @ range_if (G c KEY_ENABLE_EMERGENCY_ALERTS True)
           (K MESSAGE_ID_ETWS_OTHER_EMERGENCY_TYPE) (K MESSAGE_ID_ETWS_OTHER_EMERGENCY_TYPE)
       @ range_if (\<not> G c KEY_CARRIER_FORCE_DISABLE_ETWS_CMAS_TEST_BOOL False
                   \<and> G c KEY_ENABLE_EMERGENCY_ALERTS True \<and> G c KEY_ENABLE_ETWS_TEST_ALERTS False)
           (K MESSAGE_ID_ETWS_TEST_MESSAGE) (K MESSAGE_ID_ETWS_TEST_MESSAGE)
       @ [K MESSAGE_ID_CMAS_ALERT_PRESIDENTIAL_LEVEL, K MESSAGE_ID_CMAS_ALERT_PRESIDENTIAL_LEVEL + 1]
       @ range_if (G c KEY_ENABLE_EMERGENCY_ALERTS True \<and> G c KEY_ENABLE_CMAS_EXTREME_THREAT_ALERTS True)
           (K MESSAGE_ID_CMAS_ALERT_EXTREME_EXPECTED_OBSERVED)
           (K MESSAGE_ID_CMAS_ALERT_SEVERE_EXPECTED_LIKELY)
       @ range_if (G c KEY_ENABLE_EMERGENCY_ALERTS True \<and> G c KEY_ENABLE_CMAS_AMBER_ALERTS True)
           (K MESSAGE_ID_CMAS_ALERT_CHILD_ABDUCTION_EMERGENCY)
           (K MESSAGE_ID_CMAS_ALERT_CHILD_ABDUCTION_EMERGENCY)
       @ range_if (\<not> G c KEY_CARRIER_FORCE_DISABLE_ETWS_CMAS_TEST_BOOL False
                   \<and> G c KEY_ENABLE_EMERGENCY_ALERTS True \<and> G c KEY_ENABLE_CMAS_TEST_ALERTS False)
           (K MESSAGE_ID_CMAS_ALERT_REQUIRED_MONTHLY_TEST)
           (K MESSAGE_ID_CMAS_ALERT_OPERATOR_DEFINED_USE)
       @ [K MESSAGE_ID_CMAS_ALERT_PRESIDENTIAL_LEVEL_LANGUAGE,
          K MESSAGE_ID_CMAS_ALERT_PRESIDENTIAL_LEVEL_LANGUAGE + 1]
       @ range_if (G c KEY_ENABLE_EMERGENCY_ALERTS True \<and> G c KEY_ENABLE_CMAS_EXTREME_THREAT_ALERTS True)
           (K MESSAGE_ID_CMAS_ALERT_EXTREME_IMMEDIATE_OBSERVED_LANGUAGE)
           (K MESSAGE_ID_CMAS_ALERT_EXTREME_IMMEDIATE_LIKELY_LANGUAGE)
       @ range_if (G c KEY_ENABLE_EMERGENCY_ALERTS True \<and> G c KEY_ENABLE_CMAS_SEVERE_THREAT_ALERTS True)
           (K MESSAGE_ID_CMAS_ALERT_EXTREME_EXPECTED_OBSERVED_LANGUAGE)
           (K MESSAGE_ID_CMAS_ALERT_SEVERE_EXPECTED_LIKELY_LANGUAGE)
       @ range_if (G c KEY_ENABLE_EMERGENCY_ALERTS True \<and> G c KEY_ENABLE_CMAS_AMBER_ALERTS True)
           (K MESSAGE_ID_CMAS_ALERT_CHILD_ABDUCTION_EMERGENCY_LANGUAGE)
           (K MESSAGE_ID_CMAS_ALERT_CHILD_ABDUCTION_EMERGENCY_LANGUAGE)
       @ range_if (\<not> G c KEY_CARRIER_FORCE_DISABLE_ETWS_CMAS_TEST_BOOL False
                   \<and> G c KEY_ENABLE_EMERGENCY_ALERTS True \<and> G c KEY_ENABLE_CMAS_TEST_ALERTS False)
           (K MESSAGE_ID_CMAS_ALERT_REQUIRED_MONTHLY_TEST_LANGUAGE)
           (K MESSAGE_ID_CMAS_ALERT_OPERATOR_DEFINED_USE_LANGUAGE)\<rparr>"
proof -
  have push: "\<And>b xs lo hi. (if b then xs @ [lo, hi + 1] else xs) = xs @ range_if b lo hi"
    by (simp add: range_if_def)
  show ?thesis
    unfolding getCellBroadcastConfig_def Let_def push by simp
qed

subsection \<open>Claims\<close>

text \<open>
  C1. The claim says that every range of the documented table, the GSM CMAS extreme
  and severe ranges among them, is present exactly when its own flag is true. Evaluated
  on the code: with emergency alerts on, the extreme flag off and the severe flag on,
  the GSM list has no range from \<open>MESSAGE_ID_CMAS_ALERT_EXTREME_EXPECTED_OBSERVED\<close> to
  \<open>MESSAGE_ID_CMAS_ALERT_SEVERE_EXPECTED_LIKELY\<close>; with the extreme flag on and the
  severe flag off it has that range, pushed under the comment "extreme messages
  (4371~4372)". With the identifiers at their numbers the first list is
  4352-4355, 4356-4357, 4370-4371, 4383-4384, 4386-4392 (half-open).
\<close>

theorem getCellBroadcastConfig_gsm_severe_range:
  "gsm (getCellBroadcastConfig K
          (flags [KEY_ENABLE_EMERGENCY_ALERTS, KEY_ENABLE_CMAS_SEVERE_THREAT_ALERTS]) c) =
     [K MESSAGE_ID_ETWS_EARTHQUAKE_WARNING, K MESSAGE_ID_ETWS_EARTHQUAKE_AND_TSUNAMI_WARNING + 1,
      K MESSAGE_ID_ETWS_OTHER_EMERGENCY_TYPE, K MESSAGE_ID_ETWS_OTHER_EMERGENCY_TYPE + 1,
      K MESSAGE_ID_CMAS_ALERT_PRESIDENTIAL_LEVEL, K MESSAGE_ID_CMAS_ALERT_PRESIDENTIAL_LEVEL + 1,
      K MESSAGE_ID_CMAS_ALERT_PRESIDENTIAL_LEVEL_LANGUAGE,
      K MESSAGE_ID_CMAS_ALERT_PRESIDENTIAL_LEVEL_LANGUAGE + 1,
      K MESSAGE_ID_CMAS_ALERT_EXTREME_EXPECTED_OBSERVED_LANGUAGE,
      K MESSAGE_ID_CMAS_ALERT_SEVERE_EXPECTED_LIKELY_LANGUAGE + 1]
   \<and> gsm (getCellBroadcastConfig K
          (flags [KEY_ENABLE_EMERGENCY_ALERTS, KEY_ENABLE_CMAS_EXTREME_THREAT_ALERTS]) c) =
     [K MESSAGE_ID_ETWS_EARTHQUAKE_WARNING, K MESSAGE_ID_ETWS_EARTHQUAKE_AND_TSUNAMI_WARNING + 1,
      K MESSAGE_ID_ETWS_OTHER_EMERGENCY_TYPE, K MESSAGE_ID_ETWS_OTHER_EMERGENCY_TYPE + 1,
      K MESSAGE_ID_CMAS_ALERT_PRESIDENTIAL_LEVEL, K MESSAGE_ID_CMAS_ALERT_PRESIDENTIAL_LEVEL + 1,
      K MESSAGE_ID_CMAS_ALERT_EXTREME_EXPECTED_OBSERVED,
      K MESSAGE_ID_CMAS_ALERT_SEVERE_EXPECTED_LIKELY + 1,
      K MESSAGE_ID_CMAS_ALERT_PRESIDENTIAL_LEVEL_LANGUAGE,
      K MESSAGE_ID_CMAS_ALERT_PRESIDENTIAL_LEVEL_LANGUAGE + 1,
      K MESSAGE_ID_CMAS_ALERT_EXTREME_IMMEDIATE_OBSERVED_LANGUAGE,
      K MESSAGE_ID_CMAS_ALERT_EXTREME_IMMEDIATE_LIKELY_LANGUAGE + 1]
   \<and> gsm (getCellBroadcastConfig cb_value
          (flags [KEY_ENABLE_EMERGENCY_ALERTS, KEY_ENABLE_CMAS_SEVERE_THREAT_ALERTS]) c) =
     [4352, 4355, 4356, 4357, 4370, 4371, 4383, 4384, 4386, 4392]"
  by (simp add: getCellBroadcastConfig_closed flags_def range_if_def)

text \<open>
  C2, as stated: the push is skipped if and only if the new configuration equals the
  stored one. Counterexample: the handler of slot 0 knows its network code and stores
  the empty configuration, the computed configuration is not empty, and the radio
  interface of the slot does not exist; nothing is pushed.
\<close>

theorem updateCellBroadcastConfig_guard_counterexample:
  "getCellBroadcastConfig cb_value (flags []) 0 \<noteq> \<lparr>cdma = [], gsm = []\<rparr>
   \<and> snd (updateCellBroadcastConfig cb_value (flags []) (\<lambda>c. False)
            \<lparr>clientId = 0, mccmnc = Some ''310260'', config = \<lparr>cdma = [], gsm = []\<rparr>\<rparr>) = []"
  by (simp add: getCellBroadcastConfig_closed flags_def range_if_def updateCellBroadcastConfig_def)

text \<open>
  C2, amended: when the handler's network code is set and the radio interface of its
  slot exists, \<^verbatim>\<open>_updateCellBroadcastConfig\<close> makes no call to
  \<^verbatim>\<open>setCBSearchList\<close> and keeps the stored configuration if the newly computed
  configuration equals the stored one, and otherwise makes exactly one call, with the
  lengths and contents of the new lists, and stores the new configuration.
\<close>

theorem updateCellBroadcastConfig_push_iff_changed:
  assumes "mccmnc h \<noteq> None" and "R (clientId h)"
  shows "updateCellBroadcastConfig K G R h =
     (if getCellBroadcastConfig K G (clientId h) = config h then (h, [])
      else (h\<lparr>config := getCellBroadcastConfig K G (clientId h)\<rparr>,
            [setCBSearchList (clientId h)
               (length (gsm (getCellBroadcastConfig K G (clientId h))))
               (gsm (getCellBroadcastConfig K G (clientId h)))
               (length (cdma (getCellBroadcastConfig K G (clientId h))))
               (cdma (getCellBroadcastConfig K G (clientId h)))]))"
proof (cases "getCellBroadcastConfig K G (clientId h) = config h")
  case True
  then have "\<not> truthy (isDifferentConfig (config h) (getCellBroadcastConfig K G (clientId h)))"
    by (simp add: isDifferentConfig_iff)
  with True assms show ?thesis
    by (simp add: updateCellBroadcastConfig_def)
next
  case False
  then have "truthy (isDifferentConfig (config h) (getCellBroadcastConfig K G (clientId h)))"
    by (simp add: isDifferentConfig_iff eq_commute)
  with False assms show ?thesis
    by (simp add: updateCellBroadcastConfig_def Let_def)
qed

lemma default_config:
  "getCellBroadcastConfig cb_value (flags []) 0 =
     \<lparr>cdma = [4096, 4097], gsm = [4370, 4371, 4383, 4384]\<rparr>"
  by (simp add: getCellBroadcastConfig_closed flags_def range_if_def)

theorem updateCellBroadcastConfig_push_iff_changed_witness:
  "updateCellBroadcastConfig cb_value (flags []) (\<lambda>c. True)
      \<lparr>clientId = 0, mccmnc = Some ''310260'', config = \<lparr>cdma = [], gsm = []\<rparr>\<rparr> =
     (\<lparr>clientId = 0, mccmnc = Some ''310260'',
       config = \<lparr>cdma = [4096, 4097], gsm = [4370, 4371, 4383, 4384]\<rparr>\<rparr>,
      [setCBSearchList 0 4 [4370, 4371, 4383, 4384] 2 [4096, 4097]])
   \<and> updateCellBroadcastConfig cb_value (flags []) (\<lambda>c. True)
      \<lparr>clientId = 0, mccmnc = Some ''310260'',
       config = \<lparr>cdma = [4096, 4097], gsm = [4370, 4371, 4383, 4384]\<rparr>\<rparr> =
     (\<lparr>clientId = 0, mccmnc = Some ''310260'',
       config = \<lparr>cdma = [4096, 4097], gsm = [4370, 4371, 4383, 4384]\<rparr>\<rparr>, [])"
  using updateCellBroadcastConfig_push_iff_changed
          [of "\<lparr>clientId = 0, mccmnc = Some ''310260'', config = \<lparr>cdma = [], gsm = []\<rparr>\<rparr>"
              "\<lambda>c. True" cb_value "flags []"]
        updateCellBroadcastConfig_push_iff_changed
          [of "\<lparr>clientId = 0, mccmnc = Some ''310260'',
                config = \<lparr>cdma = [4096, 4097], gsm = [4370, 4371, 4383, 4384]\<rparr>\<rparr>"
              "\<lambda>c. True" cb_value "flags []"]
  by (simp add: default_config)

text \<open>
  C8. For every array of handlers and every client id, \<^verbatim>\<open>getCBSearchList\<close> throws
  a \<^verbatim>\<open>ReferenceError\<close> for the identifier \<^verbatim>\<open>aCLientId\<close>, which neither its
  parameters nor the module bind; no out-parameter is filled.
\<close>

theorem getCBSearchList_always_throws:
  "getCBSearchList handlers aClientId = Inl (ReferenceError ''aCLientId'')"
  by (simp add: getCBSearchList_def resolve_def getCBSearchList_scope_def module_scope_def)


section \<open>Properties of the radio request forwarder\<close>

lemma GetRadioProxy_unavailable:
  assumes "mRadioProxy w = None" and "mClientId w < 3"
    and "getService H (HIDL_SERVICE_NAME ! mClientId w) = None"
  shows "GetRadioProxy H w = (Returned (), w\<lparr>events := events w @ [ERROR ''Get Radio hal failed'']\<rparr>)"
  using assms
  by (cases w) (simp add: GetRadioProxy_def HIDL_SERVICE_NAME_def emit_def)

lemma forward_unavailable:
  assumes "mRadioProxy w = None" and "mClientId w < 3"
    and "getService H (HIDL_SERVICE_NAME ! mClientId w) = None"
  shows "forward H c w =
     (NullDeref, w\<lparr>events := events w @ [ERROR ''Get Radio hal failed'',
                       ERROR ''No Radio HAL exist'', Invoke None c]\<rparr>)"
  using assms(1)
  by (simp add: forward_def GetRadioProxy_unavailable [OF assms] emit_def)

lemma forward_available:
  assumes "GetRadioProxy H w = (Returned (), w1)" and "mRadioProxy w1 = Some p"
  shows "forward H c w = (Returned NS_OK, w1\<lparr>events := events w1 @ [Invoke (Some p) c]\<rparr>)"
  using assms by (simp add: forward_def emit_def)

text \<open>
  C5. In the state where the worker has no handle and the Radio HAL service of its slot
  is not available, the body shared by the forwarding methods logs two errors (one in
  \<^verbatim>\<open>GetRadioProxy\<close>, one after the null test) and then calls through the null
  handle: the outcome is a null-pointer access, for every HAL call \<open>c\<close>, and for
  \<^verbatim>\<open>SetRadioPower\<close> in particular.
\<close>

theorem forward_null_proxy_falls_through:
  assumes "mRadioProxy w = None" and "mClientId w < 3"
    and "getService H (HIDL_SERVICE_NAME ! mClientId w) = None"
  shows "forward H c w =
     (NullDeref, w\<lparr>events := events w @ [ERROR ''Get Radio hal failed'',
                       ERROR ''No Radio HAL exist'', Invoke None c]\<rparr>)
   \<and> SetRadioPower H serial enabled w =
     (NullDeref, w\<lparr>events := events w @ [ERROR ''Get Radio hal failed'',
                       ERROR ''No Radio HAL exist'',
                       Invoke None (''setRadioPower'', [I serial, B enabled])]\<rparr>)"
  by (simp add: SetRadioPower_def forward_unavailable [OF assms])

theorem forward_null_proxy_falls_through_witness:
  "SetRadioPower hal_unavailable 1 True (nsRilWorker 0) =
     (NullDeref, (nsRilWorker 0)\<lparr>events := [ERROR ''Get Radio hal failed'',
                       ERROR ''No Radio HAL exist'',
                       Invoke None (''setRadioPower'', [I 1, B True])]\<rparr>)"
  using forward_null_proxy_falls_through
          [of "nsRilWorker 0" hal_unavailable "(''setRadioPower'', [])" 1 True]
  by (simp add: nsRilWorker_def hal_unavailable_def)

text \<open>
  C10. When \<^verbatim>\<open>GetRadioProxy\<close> leaves the worker with a handle \<open>p\<close>,
  \<^verbatim>\<open>SetCellInfoListRate\<close> with the rate 0 calls \<^verbatim>\<open>setCellInfoListRate\<close> on
  \<open>p\<close> with the rate 2147483647, which is \<^verbatim>\<open>INT32_MAX\<close>, and with any other
  rate it calls it with that rate; the serial is passed on unchanged.
\<close>

theorem SetCellInfoListRate_forwards_rate:
  assumes "GetRadioProxy H w = (Returned (), w1)" and "mRadioProxy w1 = Some p"
  shows "SetCellInfoListRate H serial 0 w =
           (Returned NS_OK, w1\<lparr>events := events w1 @
              [Invoke (Some p) (''setCellInfoListRate'', [I serial, I 2147483647])]\<rparr>)
       \<and> (rateInMillis \<noteq> 0 \<longrightarrow> SetCellInfoListRate H serial rateInMillis w =
           (Returned NS_OK, w1\<lparr>events := events w1 @
              [Invoke (Some p) (''setCellInfoListRate'', [I serial, I rateInMillis])]\<rparr>))
       \<and> sint INT32_MAX = 2 ^ 31 - 1 \<and> INT32_MAX = 2147483647"
  by (simp add: SetCellInfoListRate_def forward_available [OF assms] INT32_MAX_def)

theorem SetCellInfoListRate_forwards_rate_witness:
  "SetCellInfoListRate hal_failing 5 0 (nsRilWorker 0) =
     (Returned NS_OK,
      (nsRilWorker 0)\<lparr>mRadioProxy := Some 1, mDeathRecipient := True,
         events := [LinkToDeath 1, SetResponseFunctions 1,
                    Invoke (Some 1) (''setCellInfoListRate'', [I 5, I 2147483647])]\<rparr>)
   \<and> SetCellInfoListRate hal_failing 5 1000 (nsRilWorker 0) =
     (Returned NS_OK,
      (nsRilWorker 0)\<lparr>mRadioProxy := Some 1, mDeathRecipient := True,
         events := [LinkToDeath 1, SetResponseFunctions 1,
                    Invoke (Some 1) (''setCellInfoListRate'', [I 5, I 1000])]\<rparr>)"
  using SetCellInfoListRate_forwards_rate [of hal_failing "nsRilWorker 0"
      "(nsRilWorker 0)\<lparr>mRadioProxy := Some 1, mDeathRecipient := True,
         events := [LinkToDeath 1, SetResponseFunctions 1]\<rparr>" 1 5 1000]
  by (simp add: GetRadioProxy_def nsRilWorker_def hal_failing_def HIDL_SERVICE_NAME_def emit_def)

section \<open>Properties of the Wi-Fi orchestrator\<close>

subsection \<open>The retry loop\<close>

lemma retry_loop_never_ready:
  assumes "\<forall>tr. \<not> r_flag (V tr ready)"
  shows "retry_loop V ready n w =
           (False, w\<lparr>trace := trace w @ concat (replicate (CONNECTION_RETRY_TIMES - n)
                                   [ready, usleep CONNECTION_RETRY_INTERVAL_US])\<rparr>)"
  using assms
proof (induction V ready n w rule: retry_loop.induct)
  case (1 V ready n w)
  note never = "1.prems"
  show ?case
  proof (cases "n < CONNECTION_RETRY_TIMES")
    case False
    then show ?thesis by (subst retry_loop.simps) simp
  next
    case True
    then have s: "CONNECTION_RETRY_TIMES - n = Suc (CONNECTION_RETRY_TIMES - (n + 1))" by simp
    have nr: "\<not> r_flag (fst (vendor_call V ready w))"
      using never by (simp add: vendor_call_def)
    show ?thesis
      apply (subst retry_loop.simps)
      apply (simp only: True nr if_True if_False "1.IH"[OF True nr never])
      apply (simp only: s replicate_Suc concat.simps)
      apply (simp add: vendor_call_def)
      done
  qed
qed

lemma retry_loop_first_ready:
  assumes "n < CONNECTION_RETRY_TIMES" and "r_flag (V (trace w) ready)"
  shows "retry_loop V ready n w = (True, w\<lparr>trace := trace w @ [ready]\<rparr>)"
  using assms by (subst retry_loop.simps) (simp add: vendor_call_def)

lemma zero_less_retry: "0 < CONNECTION_RETRY_TIMES"
  by (simp add: CONNECTION_RETRY_TIMES_def)

text \<open>
  C3, as stated: if readiness is never reported, \<^verbatim>\<open>StartSupplicant\<close> polls exactly
  50 times and sleeps between the polls. Counterexample: the supplicant never reports
  ready and \<^verbatim>\<open>InitInterface\<close> fails; the function makes the readiness check that
  precedes the loop and the failing call, returns that call's status, and neither polls
  in the loop nor sleeps.
\<close>

theorem StartSupplicant_init_failure_counterexample:
  "StartSupplicant (vendor_fail_at Supplicant_InitInterface ERROR_UNKNOWN []) wifi_native0 =
     (ERROR_UNKNOWN,
      wifi_native0\<lparr>trace := [Supplicant_IsInterfaceReady, Supplicant_InitInterface]\<rparr>)"
  by (simp add: StartSupplicant_def status_call_def vendor_call_def vendor_fail_at_def
        vendor_started_def reply_def wifi_native0_def)

text \<open>
  C3, amended: once the calls before the loop have succeeded (\<^verbatim>\<open>InitInterface\<close>,
  and in \<^verbatim>\<open>StartSupplicant\<close> also the start of the daemon through wificond), a
  manager that never reports ready is polled exactly 50 times in the loop, each poll
  followed by a sleep of 100000 microseconds, and the function returns
  \<^verbatim>\<open>ERROR_COMMAND_FAILED\<close>; if the first poll of the loop reports ready, the
  function returns \<^verbatim>\<open>SUCCESS\<close> after that poll, without any sleep.
  \<^verbatim>\<open>StartSupplicant\<close> makes one more readiness check before the loop, which decides
  whether \<^verbatim>\<open>InitInterface\<close> is called.
\<close>

theorem startup_retry_loop:
  "((\<forall>tr. \<not> r_flag (V tr Supplicant_IsInterfaceReady))
      \<and> r_status (V (trace w @ [Supplicant_IsInterfaceReady]) Supplicant_InitInterface) = SUCCESS
      \<and> r_status (V (trace w @ [Supplicant_IsInterfaceReady, Supplicant_InitInterface])
                     Wificond_StartSupplicant) = SUCCESS
    \<longrightarrow> StartSupplicant V w =
          (ERROR_COMMAND_FAILED,
           w\<lparr>trace := trace w @ [Supplicant_IsInterfaceReady, Supplicant_InitInterface,
                                   Wificond_StartSupplicant] @
                concat (replicate 50 [Supplicant_IsInterfaceReady, usleep 100000])\<rparr>))
   \<and> (\<not> r_flag (V (trace w) Supplicant_IsInterfaceReady)
      \<and> r_status (V (trace w @ [Supplicant_IsInterfaceReady]) Supplicant_InitInterface) = SUCCESS
      \<and> r_status (V (trace w @ [Supplicant_IsInterfaceReady, Supplicant_InitInterface])
                     Wificond_StartSupplicant) = SUCCESS
      \<and> r_flag (V (trace w @ [Supplicant_IsInterfaceReady, Supplicant_InitInterface,
                     Wificond_StartSupplicant]) Supplicant_IsInterfaceReady)
    \<longrightarrow> StartSupplicant V w =
          (SUCCESS,
           w\<lparr>trace := trace w @ [Supplicant_IsInterfaceReady, Supplicant_InitInterface,
                                   Wificond_StartSupplicant, Supplicant_IsInterfaceReady]\<rparr>))
   \<and> (r_flag (V (trace w) Supplicant_IsInterfaceReady)
      \<and> r_status (V (trace w @ [Supplicant_IsInterfaceReady]) Wificond_StartSupplicant) = SUCCESS
      \<and> r_flag (V (trace w @ [Supplicant_IsInterfaceReady, Wificond_StartSupplicant])
                  Supplicant_IsInterfaceReady)
    \<longrightarrow> StartSupplicant V w =
          (SUCCESS,
           w\<lparr>trace := trace w @ [Supplicant_IsInterfaceReady, Wificond_StartSupplicant,
                                   Supplicant_IsInterfaceReady]\<rparr>))
   \<and> ((\<forall>tr. \<not> r_flag (V tr Softap_IsInterfaceReady))
      \<and> r_status (V (trace w) Softap_InitInterface) = SUCCESS
    \<longrightarrow> StartAndConnectHostapd V w =
          (ERROR_COMMAND_FAILED,
           w\<lparr>trace := trace w @ Softap_InitInterface #
                concat (replicate 50 [Softap_IsInterfaceReady, usleep 100000])\<rparr>))
   \<and> (r_status (V (trace w) Softap_InitInterface) = SUCCESS
      \<and> r_flag (V (trace w @ [Softap_InitInterface]) Softap_IsInterfaceReady)
    \<longrightarrow> StartAndConnectHostapd V w =
          (SUCCESS, w\<lparr>trace := trace w @ [Softap_InitInterface, Softap_IsInterfaceReady]\<rparr>))"
proof (intro conjI impI)
  assume a: "(\<forall>tr. \<not> r_flag (V tr Supplicant_IsInterfaceReady))
      \<and> r_status (V (trace w @ [Supplicant_IsInterfaceReady]) Supplicant_InitInterface) = SUCCESS
      \<and> r_status (V (trace w @ [Supplicant_IsInterfaceReady, Supplicant_InitInterface])
                     Wificond_StartSupplicant) = SUCCESS"
  then have n: "\<forall>tr. \<not> r_flag (V tr Supplicant_IsInterfaceReady)" by blast
  show "StartSupplicant V w =
          (ERROR_COMMAND_FAILED,
           w\<lparr>trace := trace w @ [Supplicant_IsInterfaceReady, Supplicant_InitInterface,
                                   Wificond_StartSupplicant] @
                concat (replicate 50 [Supplicant_IsInterfaceReady, usleep 100000])\<rparr>)"
    using a
    by (simp add: StartSupplicant_def status_call_def vendor_call_def
          retry_loop_never_ready [where V = V, OF n]
          CHECK_SUCCESS_def CONNECTION_RETRY_TIMES_def CONNECTION_RETRY_INTERVAL_US_def)
next
  assume "\<not> r_flag (V (trace w) Supplicant_IsInterfaceReady)
      \<and> r_status (V (trace w @ [Supplicant_IsInterfaceReady]) Supplicant_InitInterface) = SUCCESS
      \<and> r_status (V (trace w @ [Supplicant_IsInterfaceReady, Supplicant_InitInterface])
                     Wificond_StartSupplicant) = SUCCESS
      \<and> r_flag (V (trace w @ [Supplicant_IsInterfaceReady, Supplicant_InitInterface,
                     Wificond_StartSupplicant]) Supplicant_IsInterfaceReady)"
  then show "StartSupplicant V w =
          (SUCCESS,
           w\<lparr>trace := trace w @ [Supplicant_IsInterfaceReady, Supplicant_InitInterface,
                                   Wificond_StartSupplicant, Supplicant_IsInterfaceReady]\<rparr>)"
    by (simp add: StartSupplicant_def status_call_def vendor_call_def
          retry_loop_first_ready zero_less_retry CHECK_SUCCESS_def)
next
  assume "r_flag (V (trace w) Supplicant_IsInterfaceReady)
      \<and> r_status (V (trace w @ [Supplicant_IsInterfaceReady]) Wificond_StartSupplicant) = SUCCESS
      \<and> r_flag (V (trace w @ [Supplicant_IsInterfaceReady, Wificond_StartSupplicant])
                  Supplicant_IsInterfaceReady)"
  then show "StartSupplicant V w =
          (SUCCESS,
           w\<lparr>trace := trace w @ [Supplicant_IsInterfaceReady, Wificond_StartSupplicant,
                                   Supplicant_IsInterfaceReady]\<rparr>)"
    by (simp add: StartSupplicant_def status_call_def vendor_call_def
          retry_loop_first_ready zero_less_retry CHECK_SUCCESS_def)
next
  assume a: "(\<forall>tr. \<not> r_flag (V tr Softap_IsInterfaceReady))
      \<and> r_status (V (trace w) Softap_InitInterface) = SUCCESS"
  then have n: "\<forall>tr. \<not> r_flag (V tr Softap_IsInterfaceReady)" by blast
  show "StartAndConnectHostapd V w =
          (ERROR_COMMAND_FAILED,
           w\<lparr>trace := trace w @ Softap_InitInterface #
                concat (replicate 50 [Softap_IsInterfaceReady, usleep 100000])\<rparr>)"
    using a
    by (simp add: StartAndConnectHostapd_def status_call_def
          retry_loop_never_ready [where V = V, OF n]
          CHECK_SUCCESS_def CONNECTION_RETRY_TIMES_def CONNECTION_RETRY_INTERVAL_US_def)
next
  assume "r_status (V (trace w) Softap_InitInterface) = SUCCESS
      \<and> r_flag (V (trace w @ [Softap_InitInterface]) Softap_IsInterfaceReady)"
  then show "StartAndConnectHostapd V w =
          (SUCCESS, w\<lparr>trace := trace w @ [Softap_InitInterface, Softap_IsInterfaceReady]\<rparr>)"
    by (simp add: StartAndConnectHostapd_def status_call_def retry_loop_first_ready
          zero_less_retry CHECK_SUCCESS_def)
qed

theorem startup_retry_loop_witness:
  "StartSupplicant vendor_never_ready wifi_native0 =
     (ERROR_COMMAND_FAILED,
      wifi_native0\<lparr>trace := [Supplicant_IsInterfaceReady, Supplicant_InitInterface,
                               Wificond_StartSupplicant] @
           concat (replicate 50 [Supplicant_IsInterfaceReady, usleep 100000])\<rparr>)
   \<and> StartAndConnectHostapd vendor_never_ready wifi_native0 =
     (ERROR_COMMAND_FAILED,
      wifi_native0\<lparr>trace := Softap_InitInterface #
           concat (replicate 50 [Softap_IsInterfaceReady, usleep 100000])\<rparr>)
   \<and> StartSupplicant vendor_started wifi_native0 =
     (SUCCESS,
      wifi_native0\<lparr>trace := [Supplicant_IsInterfaceReady, Supplicant_InitInterface,
                               Wificond_StartSupplicant, Supplicant_IsInterfaceReady]\<rparr>)
   \<and> StartSupplicant vendor_all_ok wifi_native0 =
     (SUCCESS,
      wifi_native0\<lparr>trace := [Supplicant_IsInterfaceReady, Wificond_StartSupplicant,
                               Supplicant_IsInterfaceReady]\<rparr>)
   \<and> StartAndConnectHostapd vendor_all_ok wifi_native0 =
     (SUCCESS, wifi_native0\<lparr>trace := [Softap_InitInterface, Softap_IsInterfaceReady]\<rparr>)"
  using startup_retry_loop [of vendor_never_ready wifi_native0]
        startup_retry_loop [of vendor_started wifi_native0]
        startup_retry_loop [of vendor_all_ok wifi_native0]
  by (simp add: vendor_never_ready_def vendor_started_def vendor_all_ok_def reply_def
        wifi_native0_def)


subsection \<open>Start-up sequence\<close>

text \<open>
  C4. The claim says that a failure of any step of \<^verbatim>\<open>StartWifi\<close>, the chip
  configuration and interface creation among them, is returned and stops the sequence.
  Evaluated on the code at a vendor side whose \<^verbatim>\<open>ConfigChipAndCreateIface\<close> fails
  with \<^verbatim>\<open>ERROR_UNKNOWN\<close> and whose other calls succeed: every later step runs. If
  the failing call has written the name \<^verbatim>\<open>wlan0\<close>, \<^verbatim>\<open>StartWifi\<close> returns
  \<^verbatim>\<open>SUCCESS\<close>; if it has left the name empty, \<^verbatim>\<open>StartWifi\<close> returns
  \<^verbatim>\<open>ERROR_COMMAND_FAILED\<close> from its last line, not the step's code.
\<close>

theorem StartWifi_ignores_chip_configuration_failure:
  "StartWifi (vendor_fail_at (WifiHal_ConfigChipAndCreateIface STA) ERROR_UNKNOWN ''wlan0'')
      [] wifi_native0 =
     (SUCCESS, ''wlan0'',
      \<lparr>mStaInterfaceName = ''wlan0'', mApInterfaceName = [],
       trace = [WifiHal_StartWifiModule, WifiHal_ConfigChipAndCreateIface STA,
                WificondEventService_CreateService ''wlan0'',
                WificondEventService_RegisterEventCallback,
                Supplicant_IsInterfaceReady, Supplicant_InitInterface,
                Wificond_StartSupplicant, Supplicant_IsInterfaceReady,
                Supplicant_RegisterDeathHandler, Wificond_SetupClientIface ''wlan0'',
                Supplicant_SetupStaInterface ''wlan0'']\<rparr>)
   \<and> StartWifi (vendor_fail_at (WifiHal_ConfigChipAndCreateIface STA) ERROR_UNKNOWN [])
      [] wifi_native0 =
     (ERROR_COMMAND_FAILED, [],
      \<lparr>mStaInterfaceName = [], mApInterfaceName = [],
       trace = [WifiHal_StartWifiModule, WifiHal_ConfigChipAndCreateIface STA,
                WificondEventService_CreateService [],
                WificondEventService_RegisterEventCallback,
                Supplicant_IsInterfaceReady, Supplicant_InitInterface,
                Wificond_StartSupplicant, Supplicant_IsInterfaceReady,
                Supplicant_RegisterDeathHandler, Wificond_SetupClientIface [],
                Supplicant_SetupStaInterface []]\<rparr>)"
  by (simp add: StartWifi_def StartSupplicant_def status_call_def vendor_call_def
        vendor_fail_at_def vendor_started_def reply_def wifi_native0_def
        retry_loop_first_ready zero_less_retry CHECK_SUCCESS_def)

subsection \<open>Failures are returned as they are\<close>





















subsection \<open>The dispatcher\<close>

text \<open>
  C9. For every request, result object, vendor side and state, the result that
  \<^verbatim>\<open>ExecuteCommand\<close> leaves carries the request's identifier, whatever the command
  and whatever its method returns; for a command that the dispatcher does not know it
  returns false and changes nothing else in the result.
\<close>

theorem ExecuteCommand_correlates_id:
  "nsWifiResult.mId (fst (snd (ExecuteCommand V M aOptions aResult w)))
      = CommandOptions.mId aOptions
   \<and> ExecuteCommand V M (aOptions\<lparr>mCmd := OTHER_COMMAND c\<rparr>) aResult w
      = (False, aResult\<lparr>nsWifiResult.mId := CommandOptions.mId aOptions\<rparr>, w)"
proof
  show "nsWifiResult.mId (fst (snd (ExecuteCommand V M aOptions aResult w)))
      = CommandOptions.mId aOptions"
    by (cases "mCmd aOptions")
       (simp_all add: ExecuteCommand_def Let_def split_def updateScanResults_def
          updateChannels_def)
  show "ExecuteCommand V M (aOptions\<lparr>mCmd := OTHER_COMMAND c\<rparr>) aResult w
      = (False, aResult\<lparr>nsWifiResult.mId := CommandOptions.mId aOptions\<rparr>, w)"
    by (simp add: ExecuteCommand_def)
qed

end
